theory Spec2Isabelle
  imports Complex_Main "HOL-Library.AList" "HOL-Library.Multiset"
    "HOL-Library.Product_Lexorder" "HOL-Library.Char_ord" "HOL-Library.List_Lexorder"
begin

section \<open>Data model\<close>

text \<open>
  Identifiers are the strings the CSV tables and the HTTP routes carry. Python compares
  strings by code point; the lexicographic order on \<open>char list\<close> is the same order on
  their UTF-8 bytes. Python floats are modelled as \<open>real\<close>: no claim below depends on
  rounding, and a table cell that is NaN in pandas is an explicit \<open>None\<close>.
\<close>

type_synonym student_id = string
type_synonym concept_id = string
type_synonym resource_id = string

text \<open>The three aggregate columns that \<open>calculate_mastery_score\<close> reads from a row.\<close>

record agg_row =
  accuracy :: real
  avg_time_taken :: real
  avg_attempts :: real

datatype level = Struggling | Beginner | Intermediate | Advanced

text \<open>
  A row of the student-concept feature table, with the columns the analyzer, the
  similarity engine and the recommender read. \<open>concept_name\<close> comes from a left merge
  and is missing (\<open>None\<close>) for a concept without metadata.
\<close>

record scored_row =
  student_id :: student_id
  concept_id :: concept_id
  concept_name :: "string option"
  mastery_score :: real

record feature_row = scored_row +
  mastery_level :: level

section \<open>Feature preparation: \<open>calculate_mastery_score\<close>\<close>

definition calculate_mastery_score :: "agg_row \<Rightarrow> real" where
  "calculate_mastery_score row =
     (let base_score = accuracy row * 100;
          time_penalty =
            (if avg_time_taken row > 60 then min 10 ((avg_time_taken row - 60) / 10) else 0);
          attempt_penalty =
            (if avg_attempts row > 1.5 then min 5 ((avg_attempts row - 1) * 2) else 0)
      in max 0 (base_score - time_penalty - attempt_penalty))"

section \<open>Performance analyzer\<close>

text \<open>The \<open>if\<close>/\<open>elif\<close> chain in the loop body of \<open>analyze_concept_mastery\<close>.\<close>

definition level_of_score :: "real \<Rightarrow> level" where
  "level_of_score score =
     (if score \<ge> 85 then Advanced
      else if score \<ge> 70 then Intermediate
      else if score \<ge> 50 then Beginner
      else Struggling)"

text \<open>
  \<open>analyze_concept_mastery\<close> hands back a missing (\<open>None\<close>) or empty table as it is and
  otherwise adds the \<open>mastery_level\<close> column row by row.
\<close>

definition add_level :: "scored_row \<Rightarrow> feature_row" where
  "add_level row =
     \<lparr>student_id = student_id row, concept_id = concept_id row,
      concept_name = concept_name row, mastery_score = mastery_score row,
      mastery_level = level_of_score (mastery_score row)\<rparr>"

definition analyze_concept_mastery :: "scored_row list option \<Rightarrow> feature_row list option" where
  "analyze_concept_mastery student_features =
     (case student_features of
        None \<Rightarrow> None
      | Some rows \<Rightarrow> if rows = [] then Some [] else Some (map add_level rows))"

text \<open>The order of the four tiers, lowest first.\<close>

fun level_rank :: "level \<Rightarrow> nat" where
  "level_rank Struggling = 0"
| "level_rank Beginner = 1"
| "level_rank Intermediate = 2"
| "level_rank Advanced = 3"

text \<open>
  The four columns \<open>get_weak_concepts\<close> selects for its result.
\<close>

record weak_row =
  wc_concept_id :: concept_id
  wc_concept_name :: "string option"
  wc_mastery_score :: real
  wc_mastery_level :: level

definition weak_columns :: "feature_row \<Rightarrow> weak_row" where
  "weak_columns row =
     \<lparr>wc_concept_id = concept_id row, wc_concept_name = concept_name row,
      wc_mastery_score = mastery_score row, wc_mastery_level = mastery_level row\<rparr>"

text \<open>
  \<open>get_weak_concepts\<close> returns Python's \<open>None\<close> for a missing or empty table and for
  a student without rows; it has no raising path. \<open>sort_values\<close> is modelled by the
  stable insertion sort: the order pandas gives to rows of equal score is not relied on.
\<close>

definition get_weak_concepts :: "student_id \<Rightarrow> feature_row list option \<Rightarrow> weak_row list option" where
  "get_weak_concepts sid student_features =
     (case student_features of
        None \<Rightarrow> None
      | Some rows \<Rightarrow>
          if rows = [] then None
          else
            let student_data = filter (\<lambda>r. student_id r = sid) rows
            in if student_data = [] then None
               else
                 let weak_concepts =
                       filter (\<lambda>r. mastery_level r \<in> {Struggling, Beginner}) student_data;
                     weak_concepts = sort_key mastery_score weak_concepts
                 in Some (map weak_columns weak_concepts))"

section \<open>Similarity engine\<close>

text \<open>
  A student-by-concept frame: the row labels, the column labels and the cells, row by
  row. The engine object holds the frame and the cached similarity matrix, both \<open>None\<close>
  after construction.
\<close>

record vectors =
  index :: "student_id list"
  columns :: "concept_id list"
  vals :: "real list list"

record engine =
  student_vectors :: "vectors option"
  similarity_matrix :: "real list list option"

definition init_engine :: engine where
  "init_engine = \<lparr>student_vectors = None, similarity_matrix = None\<rparr>"

datatype error =
    NotInitialized
  | StudentNotFound student_id
  | IndexError
  | AttributeError
  | TypeError
  | KeyError

definition mean :: "real list \<Rightarrow> real" where
  "mean xs = sum_list xs / real (length xs)"

text \<open>
  One cell of \<open>pivot_table(index=student_id, columns=concept_id, values=mastery_score,
  aggfunc=mean)\<close>: the mean over the rows of that student and concept, missing when
  there is none.
\<close>

definition pivot_cell :: "feature_row list \<Rightarrow> student_id \<Rightarrow> concept_id \<Rightarrow> real option" where
  "pivot_cell df s c =
     (let xs = map mastery_score (filter (\<lambda>r. student_id r = s \<and> concept_id r = c) df)
      in if xs = [] then None else Some (mean xs))"

text \<open>The loop that adds a zero column for every concept the pivot lacks.\<close>

definition add_missing_column ::
  "concept_id \<Rightarrow> concept_id list \<times> real option list list \<Rightarrow> concept_id list \<times> real option list list" where
  "add_missing_column c tbl =
     (case tbl of (cols, cells) \<Rightarrow>
        if c \<in> set cols then (cols, cells)
        else (cols @ [c], map (\<lambda>row. row @ [Some 0]) cells))"

definition fillna :: "real option \<Rightarrow> real" where
  "fillna x = (case x of None \<Rightarrow> 0 | Some v \<Rightarrow> v)"

text \<open>
  \<open>create_student_vectors\<close>: the pivot has one row per student and one column per
  concept of the table, both in sorted order; it stores the frame in the engine and
  leaves the cached matrix as it is.
\<close>

definition create_student_vectors ::
  "engine \<Rightarrow> feature_row list \<Rightarrow> concept_id list \<Rightarrow> engine \<times> vectors" where
  "create_student_vectors e student_concept_df all_concepts =
     (let idx = sort (remdups (map student_id student_concept_df));
          cols = sort (remdups (map concept_id student_concept_df));
          cells = map (\<lambda>s. map (\<lambda>c. pivot_cell student_concept_df s c) cols) idx;
          tbl = fold add_missing_column all_concepts (cols, cells);
          v = \<lparr>index = idx, columns = fst tbl, vals = map (map fillna) (snd tbl)\<rparr>
      in (e\<lparr>student_vectors := Some v\<rparr>, v))"

text \<open>\<open>DataFrame.empty\<close>: some axis has length 0.\<close>

definition df_empty :: "vectors \<Rightarrow> bool" where
  "df_empty v \<longleftrightarrow> index v = [] \<or> columns v = []"

text \<open>
  \<open>compute_similarity\<close>. The pairwise cosine similarity is the library function
  \<open>cs\<close>, a parameter of the model. A raise leaves the engine as it was.
\<close>

definition compute_similarity ::
  "(real list list \<Rightarrow> real list list) \<Rightarrow> engine \<Rightarrow> engine \<times> (error + real list list)" where
  "compute_similarity cs e =
     (case student_vectors e of
        None \<Rightarrow> (e, Inl NotInitialized)
      | Some v \<Rightarrow>
          if df_empty v then (e, Inl NotInitialized)
          else let m = cs (vals v) in (e\<lparr>similarity_matrix := Some m\<rparr>, Inr m))"

text \<open>\<open>Index.get_loc\<close> on a duplicate-free index: the position of the label.\<close>

fun get_loc :: "'a list \<Rightarrow> 'a \<Rightarrow> nat" where
  "get_loc [] x = 0"
| "get_loc (y # ys) x = (if x = y then 0 else Suc (get_loc ys x))"

text \<open>
  The loop over \<open>enumerate(similarity_scores)\<close>: every position but the student's own
  contributes the label at that position; a position beyond the index raises.
\<close>

fun collect_peers ::
  "student_id list \<Rightarrow> nat \<Rightarrow> (nat \<times> real) list \<Rightarrow> error + (student_id \<times> real) list" where
  "collect_peers idx student_idx [] = Inr []"
| "collect_peers idx student_idx ((i, score) # rest) =
     (if i \<noteq> student_idx then
        (if i < length idx then
           (case collect_peers idx student_idx rest of
              Inl err \<Rightarrow> Inl err
            | Inr results \<Rightarrow> Inr ((idx ! i, score) # results))
         else Inl IndexError)
      else collect_peers idx student_idx rest)"

text \<open>Python's \<open>xs[:k]\<close>: a negative \<open>k\<close> counts from the end.\<close>

definition slice_upto :: "'a list \<Rightarrow> int \<Rightarrow> 'a list" where
  "slice_upto xs k = (if 0 \<le> k then take (nat k) xs else take (nat (int (length xs) + k)) xs)"

text \<open>
  \<open>find_similar_students\<close>. \<open>list.sort(key, reverse=True)\<close> is stable and descending:
  the stable sort on the negated key.
\<close>

definition find_similar_students ::
  "(real list list \<Rightarrow> real list list) \<Rightarrow> engine \<Rightarrow> student_id \<Rightarrow> int \<Rightarrow> int option
     \<Rightarrow> engine \<times> (error + (student_id \<times> real) list)" where
  "find_similar_students cs e sid top_k top_n =
     (let (e1, init) =
            (case similarity_matrix e of
               None \<Rightarrow>
                 (case compute_similarity cs e of
                    (e', Inl err) \<Rightarrow> (e', Some err)
                  | (e', Inr _) \<Rightarrow> (e', None))
             | Some _ \<Rightarrow> (e, None))
      in case init of
           Some err \<Rightarrow> (e1, Inl err)
         | None \<Rightarrow>
             (case student_vectors e1 of
                None \<Rightarrow> (e1, Inl AttributeError)
              | Some v \<Rightarrow>
                  if sid \<notin> set (index v) then (e1, Inl (StudentNotFound sid))
                  else
                    let top_k = (case top_n of Some n \<Rightarrow> n | None \<Rightarrow> top_k);
                        student_idx = get_loc (index v) sid
                    in case similarity_matrix e1 of
                         None \<Rightarrow> (e1, Inl TypeError)
                       | Some m \<Rightarrow>
                           if student_idx < length m then
                             (case collect_peers (index v) student_idx
                                     (enumerate 0 (m ! student_idx)) of
                                Inl err \<Rightarrow> (e1, Inl err)
                              | Inr results \<Rightarrow>
                                  (e1, Inr (slice_upto
                                              (sort_key (\<lambda>x. - snd x) results) top_k)))
                           else (e1, Inl IndexError)))"

text \<open>
  A model over the reals of the library's cosine similarity, to run the engine on
  concrete tables: rows are scaled to unit length (a zero row is left as it is) and
  multiplied pairwise.
\<close>

definition l2_norm :: "real list \<Rightarrow> real" where
  "l2_norm xs = sqrt (sum_list (map (\<lambda>x. x * x) xs))"

definition normalize_row :: "real list \<Rightarrow> real list" where
  "normalize_row xs = (let n = l2_norm xs in if n = 0 then xs else map (\<lambda>x. x / n) xs)"

definition dot :: "real list \<Rightarrow> real list \<Rightarrow> real" where
  "dot xs ys = sum_list (map2 (*) xs ys)"

definition cosine_similarity :: "real list list \<Rightarrow> real list list" where
  "cosine_similarity X =
     (let Xn = map normalize_row X in map (\<lambda>x. map (\<lambda>y. dot x y) Xn) Xn)"

text \<open>
  The order a stable descending sort leaves: a larger key first and, among equal keys,
  the earlier row first.
\<close>

definition tie_order :: "('a \<Rightarrow> real) \<Rightarrow> ('a \<Rightarrow> nat) \<Rightarrow> 'a \<Rightarrow> 'a \<Rightarrow> bool" where
  "tie_order f row a b \<longleftrightarrow> f a < f b \<or> (f a = f b \<and> row a < row b)"

subsection \<open>Peer patterns\<close>

text \<open>
  One value of the \<open>peer_patterns\<close> dictionary; a strong concept is the pair of
  \<open>concept_id\<close> and \<open>mastery_score\<close>. Dictionaries are association lists in insertion
  order: storing under a key that is present replaces the value where it stands.
\<close>

record peer_info =
  similarity :: real
  strong_concepts :: "(concept_id \<times> real) list"

text \<open>
  The loop of \<open>analyze_peer_patterns\<close>: the peer's row of the frame, its cells paired
  with the column labels in column order, those at or above the threshold, the first
  five of them.
\<close>

fun peer_loop ::
  "vectors \<Rightarrow> real \<Rightarrow> (student_id \<times> real) list \<Rightarrow> (student_id \<times> peer_info) list
     \<Rightarrow> error + (student_id \<times> peer_info) list" where
  "peer_loop v mastery_threshold [] peer_patterns = Inr peer_patterns"
| "peer_loop v mastery_threshold ((peer_id, sim) # rest) peer_patterns =
     (if peer_id \<in> set (index v) \<and> get_loc (index v) peer_id < length (vals v) then
        (let peer_mastery = zip (columns v) (vals v ! get_loc (index v) peer_id);
             strong = filter (\<lambda>item. snd item \<ge> mastery_threshold) peer_mastery
         in peer_loop v mastery_threshold rest
              (AList.update peer_id \<lparr>similarity = sim, strong_concepts = take 5 strong\<rparr>
                 peer_patterns))
      else Inl KeyError)"

definition analyze_peer_patterns ::
  "(real list list \<Rightarrow> real list list) \<Rightarrow> engine \<Rightarrow> student_id \<Rightarrow> int \<Rightarrow> real
     \<Rightarrow> engine \<times> (error + (student_id \<times> peer_info) list)" where
  "analyze_peer_patterns cs e sid top_k mastery_threshold =
     (case find_similar_students cs e sid top_k None of
        (e1, Inl err) \<Rightarrow> (e1, Inl err)
      | (e1, Inr similar_students) \<Rightarrow>
          if similar_students = [] then (e1, Inr [])
          else
            (case student_vectors e1 of
               None \<Rightarrow> (e1, Inl AttributeError)
             | Some v \<Rightarrow> (e1, peer_loop v mastery_threshold similar_students [])))"

section \<open>Recommendation engine\<close>

record resource =
  resource_id :: resource_id
  res_concept_id :: concept_id
  res_concept_name :: string
  resource_name :: string
  resource_type :: string
  difficulty :: string
  duration_minutes :: int
  rating :: real
  view_count :: int
  url :: string

record concept_meta =
  cm_concept_id :: concept_id
  cm_concept_name :: string
  cm_level :: int
  cm_prerequisite_id :: "concept_id option"

record student_row =
  st_student_id :: student_id
  learning_style :: string

text \<open>
  The \<open>reason\<close> text of a recommendation is a format of the values kept here: the
  concept name and mastery score, or the peer and the similarity.
\<close>

datatype reason =
    Low_mastery "string option" real
  | Used_by_peer student_id real

record recommendation =
  rec_concept_id :: concept_id
  rec_concept_name :: "string option"
  rec_resource_id :: resource_id
  rec_resource_name :: string
  rec_resource_type :: string
  rec_difficulty :: string
  rec_duration_minutes :: int
  rec_rating :: real
  rec_url :: string
  rec_reason :: reason

text \<open>The tables and collaborators the recommender is constructed with.\<close>

record recommender =
  resources :: "resource list"
  concepts :: "concept_meta list"
  student_features :: "feature_row list"
  students :: "student_row list"

subsection \<open>Content-based recommendations\<close>

text \<open>
  String helpers on ASCII text: \<open>str.upper\<close>, the substring test \<open>pat in s\<close>,
  \<open>str.strip\<close>, and the case-insensitive literal match of \<open>str.contains\<close>.
\<close>

definition upper_char :: "char \<Rightarrow> char" where
  "upper_char c =
     (let n = (of_char c :: nat) in if 97 \<le> n \<and> n \<le> 122 then char_of (n - 32) else c)"

fun contains_str :: "string \<Rightarrow> string \<Rightarrow> bool" where
  "contains_str pat [] = (pat = [])"
| "contains_str pat (c # cs) = (take (length pat) (c # cs) = pat \<or> contains_str pat cs)"

definition str_contains_nocase :: "string \<Rightarrow> string \<Rightarrow> bool" where
  "str_contains_nocase s pat = contains_str (map upper_char pat) (map upper_char s)"

definition is_space :: "char \<Rightarrow> bool" where
  "is_space c = ((of_char c :: nat) \<in> {9, 10, 11, 12, 13, 28, 29, 30, 31, 32})"

definition strip :: "string \<Rightarrow> string" where
  "strip s = rev (dropWhile is_space (rev (dropWhile is_space s)))"

definition content_item :: "weak_row \<Rightarrow> resource \<Rightarrow> recommendation" where
  "content_item weak_concept res =
     \<lparr>rec_concept_id = wc_concept_id weak_concept,
      rec_concept_name = wc_concept_name weak_concept,
      rec_resource_id = resource_id res,
      rec_resource_name = resource_name res,
      rec_resource_type = resource_type res,
      rec_difficulty = difficulty res,
      rec_duration_minutes = duration_minutes res,
      rec_rating = rating res,
      rec_url = url res,
      rec_reason = Low_mastery (wc_concept_name weak_concept) (wc_mastery_score weak_concept)\<rparr>"

text \<open>
  The items one weak concept contributes: resources of the concept, else those whose
  concept name contains the weak concept's name; filtered by difficulty; the best
  \<open>top_n\<close> by rating, then view count, both descending.
\<close>

definition content_for_concept :: "resource list \<Rightarrow> int \<Rightarrow> weak_row \<Rightarrow> recommendation list" where
  "content_for_concept res_table top_n weak_concept =
     (let by_id = filter (\<lambda>r. res_concept_id r = wc_concept_id weak_concept) res_table;
          concept_resources =
            (if by_id = [] then
               (case wc_concept_name weak_concept of
                  Some name \<Rightarrow>
                    if strip name \<noteq> [] then
                      filter (\<lambda>r. str_contains_nocase (res_concept_name r) name) res_table
                    else by_id
                | None \<Rightarrow> by_id)
             else by_id)
      in if concept_resources = [] then []
         else
           let suitable =
                 (if wc_mastery_level weak_concept = Struggling then
                    filter (\<lambda>r. difficulty r = ''Beginner'') concept_resources
                  else if wc_mastery_level weak_concept = Beginner then
                    filter (\<lambda>r. difficulty r \<in> {''Beginner'', ''Intermediate''})
                      concept_resources
                  else concept_resources);
               suitable = slice_upto (sort_key (\<lambda>r. (- rating r, - view_count r)) suitable) top_n
           in map (content_item weak_concept) suitable)"

definition get_content_based_recommendations ::
  "recommender \<Rightarrow> student_id \<Rightarrow> weak_row list \<Rightarrow> int \<Rightarrow> recommendation list" where
  "get_content_based_recommendations R sid weak_concepts top_n =
     take 10 (concat (map (content_for_concept (resources R) top_n) weak_concepts))"

subsection \<open>Behavior-based recommendations\<close>

definition behavior_item :: "student_id \<Rightarrow> real \<Rightarrow> concept_id \<Rightarrow> resource \<Rightarrow> recommendation" where
  "behavior_item peer_id sim cid best =
     \<lparr>rec_concept_id = cid,
      rec_concept_name = Some cid,
      rec_resource_id = resource_id best,
      rec_resource_name = resource_name best,
      rec_resource_type = resource_type best,
      rec_difficulty = difficulty best,
      rec_duration_minutes = duration_minutes best,
      rec_rating = rating best,
      rec_url = url best,
      rec_reason = Used_by_peer peer_id sim\<rparr>"

text \<open>
  The inner loop body: nothing for a concept whose first feature row of the student
  has a mastery score of 80 or more, nothing for one without resources, else the
  resource of highest rating.
\<close>

definition behavior_for_concept ::
  "recommender \<Rightarrow> student_id \<Rightarrow> student_id \<Rightarrow> real \<Rightarrow> concept_id \<times> real
     \<Rightarrow> recommendation list" where
  "behavior_for_concept R sid peer_id sim strong_concept =
     (let cid = fst strong_concept;
          mastery = filter (\<lambda>r. student_id r = sid \<and> concept_id r = cid) (student_features R)
      in if mastery \<noteq> [] \<and> mastery_score (hd mastery) \<ge> 80 then []
         else
           (case sort_key (\<lambda>r. - rating r) (filter (\<lambda>r. res_concept_id r = cid) (resources R)) of
              [] \<Rightarrow> []
            | best # _ \<Rightarrow> [behavior_item peer_id sim cid best]))"

definition get_behavior_based_recommendations ::
  "recommender \<Rightarrow> student_id \<Rightarrow> (student_id \<times> real) list \<Rightarrow> (student_id \<times> peer_info) list
     \<Rightarrow> recommendation list" where
  "get_behavior_based_recommendations R sid similar_students peer_patterns =
     concat (map (\<lambda>(peer_id, peer_info).
                    concat (map (behavior_for_concept R sid peer_id (similarity peer_info))
                              (strong_concepts peer_info)))
               peer_patterns)"

subsection \<open>Learning path\<close>

text \<open>A weak concept with the \<open>level\<close> and \<open>prerequisite_id\<close> of its metadata row.\<close>

record enriched_row = weak_row +
  level :: int
  prerequisite_id :: "concept_id option"

record path_step =
  step_type :: string
  ps_concept_id :: concept_id
  ps_concept_name :: "string option"
  current_mastery :: real
  target_mastery :: int

text \<open>
  The enrichment loop body: a weak concept without a metadata row is passed over, the
  others take the fields of the first matching row.
\<close>

definition enrich_row :: "concept_meta list \<Rightarrow> weak_row \<Rightarrow> enriched_row list" where
  "enrich_row concept_table row =
     (case filter (\<lambda>c. cm_concept_id c = wc_concept_id row) concept_table of
        [] \<Rightarrow> []
      | info # _ \<Rightarrow>
          [\<lparr>wc_concept_id = wc_concept_id row, wc_concept_name = wc_concept_name row,
            wc_mastery_score = wc_mastery_score row, wc_mastery_level = wc_mastery_level row,
            level = cm_level info, prerequisite_id = cm_prerequisite_id info\<rparr>])"

definition main_step :: "enriched_row \<Rightarrow> path_step" where
  "main_step c =
     \<lparr>step_type = ''main'', ps_concept_id = wc_concept_id c,
      ps_concept_name = wc_concept_name c, current_mastery = wc_mastery_score c,
      target_mastery = 80\<rparr>"

text \<open>The second loop, with its \<open>visited\<close> set.\<close>

fun path_loop :: "concept_id set \<Rightarrow> enriched_row list \<Rightarrow> path_step list" where
  "path_loop visited [] = []"
| "path_loop visited (c # rest) =
     (if wc_concept_id c \<in> visited then path_loop visited rest
      else main_step c # path_loop (insert (wc_concept_id c) visited) rest)"

text \<open>
  \<open>create_learning_path\<close>; \<open>list.sort\<close> with the key \<open>(level, mastery_score)\<close> is the
  stable sort on pairs in lexicographic order.
\<close>

definition create_learning_path :: "recommender \<Rightarrow> student_id \<Rightarrow> weak_row list \<Rightarrow> path_step list" where
  "create_learning_path R sid weak_concepts =
     (let enriched = concat (map (enrich_row (concepts R)) weak_concepts);
          enriched = sort_key (\<lambda>x. (level x, wc_mastery_score x)) enriched
      in path_loop {} enriched)"

subsection \<open>Study schedule\<close>

record schedule_entry =
  se_concept :: "string option"
  se_activity :: string
  se_duration :: int
  se_resource :: string

definition days :: "string list" where
  "days = [''Monday'', ''Tuesday'', ''Wednesday'', ''Thursday'', ''Friday'', ''Saturday'',
           ''Sunday'']"

definition create_study_schedule ::
  "recommendation list \<Rightarrow> string \<Rightarrow> (string \<times> schedule_entry list) list" where
  "create_study_schedule recs style =
     fold (\<lambda>(i, r) schedule.
             AList.map_entry (days ! (i mod 7))
               (\<lambda>entries. entries @
                  [\<lparr>se_concept = rec_concept_name r, se_activity = rec_resource_type r,
                    se_duration = rec_duration_minutes r, se_resource = rec_resource_name r\<rparr>])
               schedule)
       (enumerate 0 (take 7 recs))
       (map (\<lambda>d. (d, [])) days)"

subsection \<open>The master pipeline\<close>

record plan =
  plan_student_id :: student_id
  plan_learning_style :: string
  weak_concepts_count :: nat
  learning_path :: "path_step list"
  recommendations :: "recommendation list"
  study_schedule :: "(string \<times> schedule_entry list) list"

definition rec_key :: "recommendation \<Rightarrow> concept_id \<times> resource_id" where
  "rec_key r = (rec_concept_id r, rec_resource_id r)"

text \<open>
  The dictionary comprehension over \<open>content_recs + behavior_recs\<close>: each item is
  stored under its key, in list order.
\<close>

definition merge_recommendations ::
  "recommendation list \<Rightarrow> ((concept_id \<times> resource_id) \<times> recommendation) list" where
  "merge_recommendations rs = fold (\<lambda>r d. AList.update (rec_key r) r d) rs []"

text \<open>
  \<open>generate_personalized_plan\<close>, statement by statement. The peer search and the
  peer patterns run with their defaults, \<open>top_k = 5\<close> and \<open>mastery_threshold = 70\<close>.
  A \<open>None\<close> from the weak-concept lookup raises at its first use, a student without
  a row in the student table at the lookup of the learning style.
\<close>

definition generate_personalized_plan ::
  "(real list list \<Rightarrow> real list list) \<Rightarrow> recommender \<Rightarrow> engine \<Rightarrow> student_id
     \<Rightarrow> engine \<times> (error + plan)" where
  "generate_personalized_plan cs R e sid =
     (let weak_concepts = get_weak_concepts sid (Some (student_features R))
      in case find_similar_students cs e sid 5 None of
           (e1, Inl err) \<Rightarrow> (e1, Inl err)
         | (e1, Inr similar_students) \<Rightarrow>
             (case analyze_peer_patterns cs e1 sid 5 70 of
                (e2, Inl err) \<Rightarrow> (e2, Inl err)
              | (e2, Inr peer_patterns) \<Rightarrow>
                  (case weak_concepts of
                     None \<Rightarrow> (e2, Inl AttributeError)
                   | Some weak \<Rightarrow>
                       let content_recs = get_content_based_recommendations R sid weak 3;
                           behavior_recs =
                             get_behavior_based_recommendations R sid similar_students
                               peer_patterns;
                           merged = merge_recommendations (content_recs @ behavior_recs)
                       in case filter (\<lambda>s. st_student_id s = sid) (students R) of
                            [] \<Rightarrow> (e2, Inl IndexError)
                          | st # _ \<Rightarrow>
                              let schedule =
                                    create_study_schedule (map snd merged) (learning_style st)
                              in (e2,
                                  Inr \<lparr>plan_student_id = sid,
                                       plan_learning_style = learning_style st,
                                       weak_concepts_count = length weak,
                                       learning_path = create_learning_path R sid weak,
                                       recommendations = take 5 (map snd merged),
                                       study_schedule = schedule\<rparr>))))"

section \<open>The specification's reading of the merge and of the learning path\<close>

text \<open>
  The merged mapping in the specification's words: one entry per key
  \<open>(concept_id, resource_id)\<close>, keys in the order of their first insertion, each with
  the last item proposed under it.
\<close>

definition first_occurrences :: "'a list \<Rightarrow> 'a list" where
  "first_occurrences ks = rev (remdups (rev ks))"

definition merged_mapping_spec ::
  "recommendation list \<Rightarrow> ((concept_id \<times> resource_id) \<times> recommendation) list" where
  "merged_mapping_spec rs =
     map (\<lambda>k. (k, last (filter (\<lambda>r. rec_key r = k) rs))) (first_occurrences (map rec_key rs))"

text \<open>
  The learning path in the specification's words: the weak concepts that resolve to a
  metadata row, sorted by level and then mastery score, one step per concept, the
  first occurrence kept.
\<close>

fun keep_first :: "('a \<Rightarrow> 'k) \<Rightarrow> 'a list \<Rightarrow> 'a list" where
  "keep_first f [] = []"
| "keep_first f (x # xs) = x # keep_first f (filter (\<lambda>y. f y \<noteq> f x) xs)"

definition level_of :: "concept_meta list \<Rightarrow> concept_id \<Rightarrow> int" where
  "level_of concept_table cid = cm_level (hd (filter (\<lambda>c. cm_concept_id c = cid) concept_table))"

definition resolves :: "concept_meta list \<Rightarrow> concept_id \<Rightarrow> bool" where
  "resolves concept_table cid \<longleftrightarrow> cid \<in> cm_concept_id ` set concept_table"

definition learning_path_spec :: "concept_meta list \<Rightarrow> weak_row list \<Rightarrow> path_step list" where
  "learning_path_spec concept_table weak_concepts =
     map (\<lambda>w. \<lparr>step_type = ''main'', ps_concept_id = wc_concept_id w,
                ps_concept_name = wc_concept_name w, current_mastery = wc_mastery_score w,
                target_mastery = 80\<rparr>)
       (keep_first wc_concept_id
          (sort_key (\<lambda>w. (level_of concept_table (wc_concept_id w), wc_mastery_score w))
             (filter (\<lambda>w. resolves concept_table (wc_concept_id w)) weak_concepts)))"

text \<open>A resolving weak concept with the fields of its first metadata row.\<close>

definition enr :: "concept_meta list \<Rightarrow> weak_row \<Rightarrow> enriched_row" where
  "enr tbl w =
     \<lparr>wc_concept_id = wc_concept_id w, wc_concept_name = wc_concept_name w,
      wc_mastery_score = wc_mastery_score w, wc_mastery_level = wc_mastery_level w,
      level = level_of tbl (wc_concept_id w),
      prerequisite_id = cm_prerequisite_id (hd (filter (\<lambda>c. cm_concept_id c = wc_concept_id w) tbl))\<rparr>"

section \<open>Example tables\<close>

text \<open>Three students over two concepts of a three-concept catalogue.\<close>

definition example_features :: "feature_row list" where
  "example_features =
     [\<lparr>student_id = ''S2'', concept_id = ''C1'', concept_name = Some ''Algebra'',
        mastery_score = 96, mastery_level = Advanced\<rparr>,
      \<lparr>student_id = ''S1'', concept_id = ''C1'', concept_name = Some ''Algebra'',
        mastery_score = 80, mastery_level = Intermediate\<rparr>,
      \<lparr>student_id = ''S1'', concept_id = ''C2'', concept_name = Some ''Geometry'',
        mastery_score = 60, mastery_level = Beginner\<rparr>,
      \<lparr>student_id = ''S2'', concept_id = ''C2'', concept_name = Some ''Geometry'',
        mastery_score = 72, mastery_level = Intermediate\<rparr>,
      \<lparr>student_id = ''S3'', concept_id = ''C2'', concept_name = Some ''Geometry'',
        mastery_score = 100, mastery_level = Advanced\<rparr>]"

definition example_engine :: engine where
  "example_engine = fst (create_student_vectors init_engine example_features [''C1'', ''C2'', ''C3''])"

text \<open>
  A catalogue of three concepts and three resources, two student profiles, and a list of
  weak concepts with a repeated and an unknown concept.
\<close>

definition example_concepts :: "concept_meta list" where
  "example_concepts =
     [\<lparr>cm_concept_id = ''C1'', cm_concept_name = ''Algebra'', cm_level = 2,
        cm_prerequisite_id = Some ''C2''\<rparr>,
      \<lparr>cm_concept_id = ''C2'', cm_concept_name = ''Geometry'', cm_level = 1,
        cm_prerequisite_id = None\<rparr>,
      \<lparr>cm_concept_id = ''C3'', cm_concept_name = ''Calculus'', cm_level = 3,
        cm_prerequisite_id = Some ''C1''\<rparr>]"

definition example_resources :: "resource list" where
  "example_resources =
     [\<lparr>resource_id = ''R1'', res_concept_id = ''C2'', res_concept_name = ''Geometry'',
        resource_name = ''Shapes'', resource_type = ''video'', difficulty = ''Beginner'',
        duration_minutes = 15, rating = 45 / 10, view_count = 100, url = ''u1''\<rparr>,
      \<lparr>resource_id = ''R2'', res_concept_id = ''C2'', res_concept_name = ''Geometry'',
        resource_name = ''Proofs'', resource_type = ''article'', difficulty = ''Intermediate'',
        duration_minutes = 30, rating = 48 / 10, view_count = 50, url = ''u2''\<rparr>,
      \<lparr>resource_id = ''R3'', res_concept_id = ''C1'', res_concept_name = ''Algebra'',
        resource_name = ''Equations'', resource_type = ''quiz'', difficulty = ''Beginner'',
        duration_minutes = 20, rating = 4, view_count = 10, url = ''u3''\<rparr>]"

definition example_students :: "student_row list" where
  "example_students =
     [\<lparr>st_student_id = ''S1'', learning_style = ''visual''\<rparr>,
      \<lparr>st_student_id = ''S2'', learning_style = ''auditory''\<rparr>]"

definition example_recommender :: recommender where
  "example_recommender =
     \<lparr>resources = example_resources, concepts = example_concepts,
      student_features = example_features, students = example_students\<rparr>"

definition example_weak :: "weak_row list" where
  "example_weak =
     [\<lparr>wc_concept_id = ''C1'', wc_concept_name = Some ''Algebra'', wc_mastery_score = 60,
        wc_mastery_level = Beginner\<rparr>,
      \<lparr>wc_concept_id = ''C9'', wc_concept_name = None, wc_mastery_score = 40,
        wc_mastery_level = Struggling\<rparr>,
      \<lparr>wc_concept_id = ''C2'', wc_concept_name = Some ''Geometry'', wc_mastery_score = 55,
        wc_mastery_level = Beginner\<rparr>,
      \<lparr>wc_concept_id = ''C1'', wc_concept_name = Some ''Algebra'', wc_mastery_score = 45,
        wc_mastery_level = Struggling\<rparr>]"

text \<open>
  The engine after the first peer search, the items the example plan is merged from,
  and the plan and peer patterns of student \<open>S1\<close>.
\<close>

definition example_engine_cached :: engine where
  "example_engine_cached =
     \<lparr>student_vectors =
        Some \<lparr>index = [''S1'', ''S2'', ''S3''], columns = [''C1'', ''C2'', ''C3''],
              vals = [[80, 60, 0], [96, 72, 0], [0, 100, 0]]\<rparr>,
      similarity_matrix = Some [[1, 1, 3/5], [1, 1, 3/5], [3/5, 3/5, 1]]\<rparr>"

definition example_low_item :: "resource \<Rightarrow> recommendation" where
  "example_low_item res =
     \<lparr>rec_concept_id = ''C2'', rec_concept_name = Some ''Geometry'',
      rec_resource_id = resource_id res, rec_resource_name = resource_name res,
      rec_resource_type = resource_type res, rec_difficulty = difficulty res,
      rec_duration_minutes = duration_minutes res, rec_rating = rating res,
      rec_url = url res, rec_reason = Low_mastery (Some ''Geometry'') 60\<rparr>"

definition example_content :: "recommendation list" where
  "example_content =
     [example_low_item (example_resources ! 1), example_low_item (example_resources ! 0)]"

definition example_peer_item :: "student_id \<Rightarrow> real \<Rightarrow> recommendation" where
  "example_peer_item peer_id sim =
     \<lparr>rec_concept_id = ''C2'', rec_concept_name = Some ''C2'', rec_resource_id = ''R2'',
      rec_resource_name = ''Proofs'', rec_resource_type = ''article'',
      rec_difficulty = ''Intermediate'', rec_duration_minutes = 30, rec_rating = 48 / 10,
      rec_url = ''u2'', rec_reason = Used_by_peer peer_id sim\<rparr>"

definition example_plan_result :: plan where
  "example_plan_result =
     \<lparr>plan_student_id = ''S1'', plan_learning_style = ''visual'', weak_concepts_count = 1,
      learning_path =
        [\<lparr>step_type = ''main'', ps_concept_id = ''C2'', ps_concept_name = Some ''Geometry'',
           current_mastery = 60, target_mastery = 80\<rparr>],
      recommendations = [example_peer_item ''S3'' (3/5), example_low_item (example_resources ! 0)],
      study_schedule =
        [(''Monday'', [\<lparr>se_concept = Some ''C2'', se_activity = ''article'', se_duration = 30,
                         se_resource = ''Proofs''\<rparr>]),
         (''Tuesday'', [\<lparr>se_concept = Some ''Geometry'', se_activity = ''video'',
                          se_duration = 15, se_resource = ''Shapes''\<rparr>]),
         (''Wednesday'', []), (''Thursday'', []), (''Friday'', []), (''Saturday'', []),
         (''Sunday'', [])]\<rparr>"

definition example_patterns_value :: "(student_id \<times> peer_info) list" where
  "example_patterns_value =
     [(''S2'', \<lparr>similarity = 1, strong_concepts = [(''C1'', 96), (''C2'', 72)]\<rparr>),
      (''S3'', \<lparr>similarity = 3/5, strong_concepts = [(''C2'', 100)]\<rparr>)]"

text \<open>The feature table without the rows of student \<open>S1\<close>.\<close>

definition example_features_others :: "feature_row list" where
  "example_features_others =
     [\<lparr>student_id = ''S2'', concept_id = ''C1'', concept_name = Some ''Algebra'',
        mastery_score = 96, mastery_level = Advanced\<rparr>,
      \<lparr>student_id = ''S2'', concept_id = ''C2'', concept_name = Some ''Geometry'',
        mastery_score = 72, mastery_level = Intermediate\<rparr>,
      \<lparr>student_id = ''S3'', concept_id = ''C2'', concept_name = Some ''Geometry'',
        mastery_score = 100, mastery_level = Advanced\<rparr>]"

text \<open>
  Two students over six concepts, the peer at 90 on each; the vectors are parallel, so
  the cached matrix is the one the cosine gives.
\<close>

definition example_wide_engine :: engine where
  "example_wide_engine =
     \<lparr>student_vectors =
        Some \<lparr>index = [''S1'', ''S2''],
              columns = [''C1'', ''C2'', ''C3'', ''C4'', ''C5'', ''C6''],
              vals = [[50, 50, 50, 50, 50, 50], [90, 90, 90, 90, 90, 90]]\<rparr>,
      similarity_matrix = Some [[1, 1], [1, 1]]\<rparr>"

section \<open>Mastery score and mastery level\<close>

text \<open>
  Claim C1. For a row with accuracy between 0 and 1 and non-negative average time and
  average attempts, the mastery score (accuracy times 100, minus the time penalty and
  the attempt penalty, floored at 0) lies between 0 and 100 inclusive.
\<close>

theorem mastery_score_in_range:
  assumes "0 \<le> accuracy row" and "accuracy row \<le> 1"
    and "0 \<le> avg_time_taken row" and "0 \<le> avg_attempts row"
  shows "0 \<le> calculate_mastery_score row \<and> calculate_mastery_score row \<le> 100"
proof -
  let ?tp = "if avg_time_taken row > 60 then min 10 ((avg_time_taken row - 60) / 10) else 0"
  let ?ap = "if avg_attempts row > 1.5 then min 5 ((avg_attempts row - 1) * 2) else 0"
  have tp: "0 \<le> ?tp" by simp
  have ap: "0 \<le> ?ap" by simp
  have base: "accuracy row * 100 \<le> 100" using assms(2) by simp
  have "accuracy row * 100 - ?tp - ?ap \<le> 100" using tp ap base by linarith
  then show ?thesis
    by (simp add: calculate_mastery_score_def Let_def)
qed

theorem mastery_score_in_range_witness:
  "0 \<le> calculate_mastery_score \<lparr>accuracy = 1/2, avg_time_taken = 90, avg_attempts = 2\<rparr>
   \<and> calculate_mastery_score \<lparr>accuracy = 1/2, avg_time_taken = 90, avg_attempts = 2\<rparr> \<le> 100
   \<and> calculate_mastery_score \<lparr>accuracy = 1/2, avg_time_taken = 90, avg_attempts = 2\<rparr> = 45"
  using mastery_score_in_range
    [of "\<lparr>accuracy = 1/2, avg_time_taken = 90, avg_attempts = 2\<rparr>"]
  by (simp add: calculate_mastery_score_def Let_def)

text \<open>
  Claim C5. The mastery level is a function of the mastery score alone, with tier
  boundaries at 50, 70 and 85, each tier closed at its lower bound: Advanced from 85,
  Intermediate from 70 to below 85, Beginner from 50 to below 70, Struggling below 50.
  It is monotonic: a higher score never gets a lower tier. Every row of the analysed
  table carries the tier of its own score.
\<close>

theorem mastery_level_step_function:
  "(level_of_score s = Advanced \<longleftrightarrow> 85 \<le> s)
   \<and> (level_of_score s = Intermediate \<longleftrightarrow> 70 \<le> s \<and> s < 85)
   \<and> (level_of_score s = Beginner \<longleftrightarrow> 50 \<le> s \<and> s < 70)
   \<and> (level_of_score s = Struggling \<longleftrightarrow> s < 50)
   \<and> (s \<le> t \<longrightarrow> level_rank (level_of_score s) \<le> level_rank (level_of_score t))
   \<and> (analyze_concept_mastery (Some rows) = Some out \<longrightarrow>
        map mastery_level out = map (\<lambda>r. level_of_score (mastery_score r)) rows)"
  by (auto simp: level_of_score_def analyze_concept_mastery_def add_level_def)

theorem mastery_level_step_function_witness:
  "level_of_score 85 = Advanced \<and> level_of_score 84 = Intermediate
   \<and> level_of_score 70 = Intermediate \<and> level_of_score 69 = Beginner
   \<and> level_of_score 50 = Beginner \<and> level_of_score 49 = Struggling
   \<and> level_rank (level_of_score 49) \<le> level_rank (level_of_score 85)
   \<and> analyze_concept_mastery
        (Some [\<lparr>student_id = ''S1'', concept_id = ''C1'', concept_name = Some ''Algebra'',
                mastery_score = 90\<rparr>])
      = Some [\<lparr>student_id = ''S1'', concept_id = ''C1'', concept_name = Some ''Algebra'',
                mastery_score = 90, mastery_level = Advanced\<rparr>]"
  using mastery_level_step_function [of 49 85]
  by (simp add: level_of_score_def analyze_concept_mastery_def add_level_def)

section \<open>Similarity engine: auxiliary facts\<close>

lemma get_loc_less: "x \<in> set xs \<Longrightarrow> get_loc xs x < length xs"
  by (induction xs) auto

lemma nth_get_loc: "x \<in> set xs \<Longrightarrow> xs ! get_loc xs x = x"
  by (induction xs) auto

lemma get_loc_nth: "distinct xs \<Longrightarrow> i < length xs \<Longrightarrow> get_loc xs (xs ! i) = i"
proof (induction xs arbitrary: i)
  case Nil
  then show ?case by simp
next
  case (Cons y ys)
  show ?case
  proof (cases i)
    case 0
    then show ?thesis by simp
  next
    case (Suc j)
    with Cons.prems have "j < length ys" and "ys ! j \<in> set ys" and "y \<notin> set ys" by auto
    then have "ys ! j \<noteq> y" by metis
    with Suc Cons show ?thesis by simp
  qed
qed

lemma collect_peers_Inr:
  "collect_peers idx k en = Inr rs \<Longrightarrow>
     rs = map (\<lambda>p. (idx ! fst p, snd p)) (filter (\<lambda>p. fst p \<noteq> k) en)
     \<and> (\<forall>p \<in> set en. fst p \<noteq> k \<longrightarrow> fst p < length idx)"
  by (induction idx k en arbitrary: rs rule: collect_peers.induct)
     (auto split: if_splits sum.splits)

lemma collect_peers_total:
  "\<forall>p \<in> set en. fst p \<noteq> k \<longrightarrow> fst p < length idx \<Longrightarrow> \<exists>rs. collect_peers idx k en = Inr rs"
proof (induction en)
  case Nil
  then show ?case by simp
next
  case (Cons p en)
  obtain i s where p: "p = (i, s)" by (cases p)
  from Cons obtain rs where rs: "collect_peers idx k en = Inr rs" by auto
  show ?case
  proof (cases "i = k")
    case True
    with p rs show ?thesis by simp
  next
    case False
    with Cons.prems p have "i < length idx" by simp
    with False p rs show ?thesis by simp
  qed
qed

lemma insort_key_tie_order:
  "sorted_wrt (tie_order f row) ys \<Longrightarrow> \<forall>y \<in> set ys. row x < row y \<Longrightarrow>
     sorted_wrt (tie_order f row) (insort_key f x ys)"
  by (induction ys) (auto simp: tie_order_def set_insort_key)

lemma sort_key_tie_order:
  "sorted_wrt (\<lambda>a b. row a < row b) xs \<Longrightarrow> sorted_wrt (tie_order f row) (sort_key f xs)"
  by (induction xs) (auto simp: insort_key_tie_order)

lemma slice_upto_length: "0 \<le> k \<Longrightarrow> length (slice_upto xs k) \<le> nat k"
  by (simp add: slice_upto_def)

lemma slice_upto_subset: "set (slice_upto xs k) \<subseteq> set xs"
  by (auto simp: slice_upto_def dest: in_set_takeD)

lemma slice_upto_sorted_wrt: "sorted_wrt R xs \<Longrightarrow> sorted_wrt R (slice_upto xs k)"
  by (simp add: slice_upto_def)


lemma compute_similarity_vectors:
  "student_vectors (fst (compute_similarity cs e)) = student_vectors e"
  by (simp add: compute_similarity_def Let_def split: option.splits)

lemma find_similar_students_Inr:
  assumes "snd (find_similar_students cs e sid top_k top_n) = Inr r"
  shows "\<exists>v m peers.
           student_vectors e = Some v \<and> sid \<in> set (index v)
           \<and> (similarity_matrix e = Some m
               \<or> (similarity_matrix e = None \<and> \<not> df_empty v \<and> m = cs (vals v)))
           \<and> get_loc (index v) sid < length m
           \<and> collect_peers (index v) (get_loc (index v) sid)
                (enumerate 0 (m ! get_loc (index v) sid)) = Inr peers
           \<and> r = slice_upto (sort_key (\<lambda>x. - snd x) peers)
                   (case top_n of Some n \<Rightarrow> n | None \<Rightarrow> top_k)"
  using assms
  by (auto simp: find_similar_students_def compute_similarity_def Let_def
           split: option.splits if_splits sum.splits prod.splits)

lemma enumerate_rows_increasing:
  "sorted_wrt (\<lambda>a b. fst a < fst b) (enumerate n xs)"
proof -
  have "sorted_wrt (<) (map fst (enumerate n xs))" by simp
  then show ?thesis by (simp only: sorted_wrt_map)
qed

lemma peers_rows_increasing:
  assumes "distinct idx" and "collect_peers idx k (enumerate 0 row) = Inr peers"
  shows "sorted_wrt (\<lambda>a b. get_loc idx (fst a) < get_loc idx (fst b)) peers"
proof -
  let ?en = "filter (\<lambda>p. fst p \<noteq> k) (enumerate 0 row)"
  from collect_peers_Inr [OF assms(2)]
  have peers: "peers = map (\<lambda>p. (idx ! fst p, snd p)) ?en"
    and bound: "\<forall>p \<in> set (enumerate 0 row). fst p \<noteq> k \<longrightarrow> fst p < length idx" by auto
  have inc: "sorted_wrt (\<lambda>a b. fst a < fst b) ?en"
    by (rule sorted_wrt_filter) (rule enumerate_rows_increasing)
  have "sorted_wrt (\<lambda>a b. get_loc idx (idx ! fst a) < get_loc idx (idx ! fst b)) ?en"
  proof (rule sorted_wrt_mono_rel [OF _ inc])
    fix a b assume "a \<in> set ?en" "b \<in> set ?en" "fst a < fst b"
    with bound have "fst a < length idx" "fst b < length idx" by auto
    with assms(1) \<open>fst a < fst b\<close>
    show "get_loc idx (idx ! fst a) < get_loc idx (idx ! fst b)"
      by (simp add: get_loc_nth)
  qed
  then show ?thesis by (simp add: peers sorted_wrt_map)
qed

lemma peers_exclude_self:
  assumes "distinct idx" and "sid \<in> set idx"
    and "collect_peers idx (get_loc idx sid) en = Inr peers"
  shows "sid \<notin> fst ` set peers"
proof
  assume "sid \<in> fst ` set peers"
  with collect_peers_Inr [OF assms(3)]
  obtain p where p: "p \<in> set en" "fst p \<noteq> get_loc idx sid" "fst p < length idx"
    and eq: "sid = idx ! fst p" by auto
  from assms(1) p(3) have "get_loc idx (idx ! fst p) = fst p" by (rule get_loc_nth)
  with eq p(2) show False by simp
qed


lemma cosine_similarity_shape:
  "length (cosine_similarity X) = length X \<and> (\<forall>r \<in> set (cosine_similarity X). length r = length X)"
  by (auto simp: cosine_similarity_def Let_def)

lemma find_similar_students_returns:
  assumes shape: "\<And>X. length (cs X) = length X \<and> (\<forall>r \<in> set (cs X). length r = length X)"
    and v: "student_vectors e = Some v" "length (vals v) = length (index v)" "columns v \<noteq> []"
    and sid: "sid \<in> set (index v)"
    and m: "similarity_matrix e = None \<or> similarity_matrix e = Some (cs (vals v))"
  shows "\<exists>r. find_similar_students cs e sid top_k top_n
              = (e\<lparr>similarity_matrix := Some (cs (vals v))\<rparr>, Inr r)"
proof -
  let ?m = "cs (vals v)" and ?k = "get_loc (index v) sid"
  have ne: "\<not> df_empty v" using sid v(3) by (auto simp: df_empty_def)
  have len: "length ?m = length (index v)" using shape v(2) by simp
  have k: "?k < length ?m" using sid len by (simp add: get_loc_less)
  then have "?m ! ?k \<in> set ?m" by simp
  with shape v(2) have row: "length (?m ! ?k) = length (index v)" by metis
  have "\<forall>p \<in> set (enumerate 0 (?m ! ?k)). fst p \<noteq> ?k \<longrightarrow> fst p < length (index v)"
    using row by (auto simp: in_set_enumerate_eq)
  then obtain peers where peers: "collect_peers (index v) ?k (enumerate 0 (?m ! ?k)) = Inr peers"
    using collect_peers_total by blast
  from m show ?thesis
  proof
    assume "similarity_matrix e = None"
    with v(1) sid ne k peers show ?thesis
      by (simp add: find_similar_students_def compute_similarity_def Let_def)
  next
    assume c: "similarity_matrix e = Some (cs (vals v))"
    then have "e\<lparr>similarity_matrix := Some (cs (vals v))\<rparr> = e" by simp
    with c v(1) sid ne k peers show ?thesis
      by (simp add: find_similar_students_def Let_def)
  qed
qed

lemma find_similar_students_props:
  assumes v: "student_vectors e = Some v" "distinct (index v)"
    and r: "snd (find_similar_students cs e sid top_k top_n) = Inr r"
  shows "sid \<notin> fst ` set r"
    and "sorted_wrt (tie_order (\<lambda>x. - snd x) (\<lambda>x. get_loc (index v) (fst x))) r"
    and "0 \<le> (case top_n of Some n \<Rightarrow> n | None \<Rightarrow> top_k) \<Longrightarrow>
           length r \<le> nat (case top_n of Some n \<Rightarrow> n | None \<Rightarrow> top_k)"
proof -
  from find_similar_students_Inr [OF r] v(1)
  obtain m peers where sid: "sid \<in> set (index v)"
    and peers: "collect_peers (index v) (get_loc (index v) sid)
                  (enumerate 0 (m ! get_loc (index v) sid)) = Inr peers"
    and req: "r = slice_upto (sort_key (\<lambda>x. - snd x) peers)
                   (case top_n of Some n \<Rightarrow> n | None \<Rightarrow> top_k)"
    by auto
  have "sid \<notin> fst ` set peers" using v(2) sid peers by (rule peers_exclude_self)
  moreover have "set r \<subseteq> set peers"
    using slice_upto_subset [of "sort_key (\<lambda>x. - snd x) peers"] by (simp add: req)
  ultimately show "sid \<notin> fst ` set r" by auto
  have "sorted_wrt (\<lambda>a b. get_loc (index v) (fst a) < get_loc (index v) (fst b)) peers"
    using v(2) peers by (rule peers_rows_increasing)
  then show "sorted_wrt (tie_order (\<lambda>x. - snd x) (\<lambda>x. get_loc (index v) (fst x))) r"
    unfolding req by (intro slice_upto_sorted_wrt sort_key_tie_order)
  show "0 \<le> (case top_n of Some n \<Rightarrow> n | None \<Rightarrow> top_k) \<Longrightarrow>
           length r \<le> nat (case top_n of Some n \<Rightarrow> n | None \<Rightarrow> top_k)"
    unfolding req by (rule slice_upto_length)
qed

lemma ex_vectors: "snd (create_student_vectors init_engine example_features [''C1'', ''C2'', ''C3''])
  = \<lparr>index = [''S1'', ''S2'', ''S3''], columns = [''C1'', ''C2'', ''C3''],
      vals = [[80, 60, 0], [96, 72, 0], [0, 100, 0]]\<rparr>"
  by (simp add: create_student_vectors_def example_features_def Let_def pivot_cell_def mean_def
      add_missing_column_def fillna_def)

lemma sqrt_10000: "sqrt 10000 = 100"
  by (rule real_sqrt_unique) simp_all

lemma sqrt_14400: "sqrt 14400 = 120"
  by (rule real_sqrt_unique) simp_all

lemma ex_cos: "cosine_similarity [[80, 60, 0], [96, 72, 0], [0, 100, 0]]
   = [[1, 1, 3/5], [1, 1, 3/5], [3/5, 3/5, 1]]"
  by (simp add: cosine_similarity_def normalize_row_def l2_norm_def dot_def Let_def sqrt_10000 sqrt_14400)

lemma example_engine_eq:
  "example_engine =
     \<lparr>student_vectors =
        Some \<lparr>index = [''S1'', ''S2'', ''S3''], columns = [''C1'', ''C2'', ''C3''],
              vals = [[80, 60, 0], [96, 72, 0], [0, 100, 0]]\<rparr>,
      similarity_matrix = None\<rparr>"
  by (simp add: example_engine_def init_engine_def create_student_vectors_def
      example_features_def Let_def pivot_cell_def mean_def add_missing_column_def fillna_def)

lemma example_find:
  "snd (find_similar_students cosine_similarity example_engine ''S1'' k None)
     = Inr (slice_upto [(''S2'', 1), (''S3'', 3/5)] k)"
  by (simp add: example_engine_eq find_similar_students_def compute_similarity_def df_empty_def
      ex_cos Let_def enumerate_eq_zip upt_rec[of 0] )


lemma tie_order_descending:
  "tie_order (\<lambda>x. - snd x) row a b \<Longrightarrow>
     snd b < snd a \<or> (snd b = snd a \<and> row a < row b)"
  by (auto simp: tie_order_def)

section \<open>Peer search\<close>

lemma example_find_tie:
  "snd (find_similar_students cosine_similarity example_engine ''S3'' k None)
     = Inr (slice_upto [(''S1'', 3/5), (''S2'', 3/5)] k)"
  by (simp add: example_engine_eq find_similar_students_def compute_similarity_def df_empty_def
      ex_cos Let_def enumerate_eq_zip upt_rec [of 0])

text \<open>
  Claim C4. Let the engine hold a frame with one row per student (a duplicate-free
  index), its similarity matrix not yet computed or computed from that frame. For every
  student of the index and every count \<open>top_k\<close>, the call
  \<open>find_similar_students(student_id, top_k)\<close> returns a list of at most \<open>top_k\<close>
  pairs that does not contain the queried student and is strictly ordered by similarity
  descending and, among peers of equal similarity, by original row: of two entries the
  later one has a smaller similarity, or the same similarity and a later row.
\<close>

theorem find_similar_students_top_k:
  assumes shape: "\<And>X. length (cs X) = length X \<and> (\<forall>r \<in> set (cs X). length r = length X)"
    and v: "student_vectors e = Some v" "distinct (index v)"
      "length (vals v) = length (index v)" "columns v \<noteq> []"
    and sid: "sid \<in> set (index v)"
    and m: "similarity_matrix e = None \<or> similarity_matrix e = Some (cs (vals v))"
  shows "\<exists>r. snd (find_similar_students cs e sid (int top_k) None) = Inr r
           \<and> length r \<le> top_k
           \<and> sid \<notin> fst ` set r
           \<and> (\<forall>i j. i < j \<and> j < length r \<longrightarrow>
                  (snd (r ! j) < snd (r ! i)
                   \<or> (snd (r ! j) = snd (r ! i)
                       \<and> get_loc (index v) (fst (r ! i)) < get_loc (index v) (fst (r ! j)))))"
proof -
  from find_similar_students_returns [OF shape v(1,3,4) sid m, of "int top_k" None]
  obtain r where r: "snd (find_similar_students cs e sid (int top_k) None) = Inr r" by auto
  note props = find_similar_students_props [OF v(1,2) r]
  have len: "length r \<le> top_k" using props(3) by simp
  have "\<forall>i j. i < j \<and> j < length r \<longrightarrow>
          tie_order (\<lambda>x. - snd x) (\<lambda>x. get_loc (index v) (fst x)) (r ! i) (r ! j)"
    using props(2) by (simp add: sorted_wrt_iff_nth_less)
  then have "\<forall>i j. i < j \<and> j < length r \<longrightarrow>
                  (snd (r ! j) < snd (r ! i)
                   \<or> (snd (r ! j) = snd (r ! i)
                       \<and> get_loc (index v) (fst (r ! i)) < get_loc (index v) (fst (r ! j))))"
    by (blast dest: tie_order_descending)
  with r len props(1) show ?thesis by blast
qed

text \<open>
  On the example population the two peers of \<open>S3\<close> have the same similarity and come
  back in the order of their rows.
\<close>

theorem find_similar_students_top_k_witness:
  "snd (find_similar_students cosine_similarity example_engine ''S3'' (int 2) None)
     = Inr [(''S1'', 3/5), (''S2'', 3/5)]
   \<and> length [(''S1'', 3/5 :: real), (''S2'', 3/5)] \<le> 2
   \<and> ''S3'' \<notin> fst ` set [(''S1'', 3/5 :: real), (''S2'', 3/5)]
   \<and> get_loc [''S1'', ''S2'', ''S3''] ''S1'' < get_loc [''S1'', ''S2'', ''S3''] ''S2''"
proof -
  let ?v = "\<lparr>index = [''S1'', ''S2'', ''S3''], columns = [''C1'', ''C2'', ''C3''],
              vals = [[80, 60, 0], [96, 72, 0], [0, 100, 0]]\<rparr>"
  have "\<exists>r. snd (find_similar_students cosine_similarity example_engine ''S3'' (int 2) None) = Inr r
           \<and> length r \<le> 2
           \<and> ''S3'' \<notin> fst ` set r
           \<and> (\<forall>i j. i < j \<and> j < length r \<longrightarrow>
                  (snd (r ! j) < snd (r ! i)
                   \<or> (snd (r ! j) = snd (r ! i)
                       \<and> get_loc (index ?v) (fst (r ! i)) < get_loc (index ?v) (fst (r ! j)))))"
    by (rule find_similar_students_top_k [OF cosine_similarity_shape])
       (simp_all add: example_engine_eq)
  then obtain r where r: "snd (find_similar_students cosine_similarity example_engine ''S3'' (int 2) None) = Inr r"
      "length r \<le> 2" "''S3'' \<notin> fst ` set r"
    and ord: "\<forall>i j. i < j \<and> j < length r \<longrightarrow>
                  (snd (r ! j) < snd (r ! i)
                   \<or> (snd (r ! j) = snd (r ! i)
                       \<and> get_loc (index ?v) (fst (r ! i)) < get_loc (index ?v) (fst (r ! j))))"
    by blast
  from r(1) have req: "r = [(''S1'', 3/5), (''S2'', 3/5)]"
    by (simp add: example_find_tie slice_upto_def)
  from ord have "(0::nat) < 1 \<and> 1 < length r \<longrightarrow>
                  (snd (r ! 1) < snd (r ! 0)
                   \<or> (snd (r ! 1) = snd (r ! 0)
                       \<and> get_loc (index ?v) (fst (r ! 0)) < get_loc (index ?v) (fst (r ! 1))))"
    by blast
  then have "get_loc [''S1'', ''S2'', ''S3''] ''S1'' < get_loc [''S1'', ''S2'', ''S3''] ''S2''"
    unfolding req by simp
  with r req show ?thesis by simp
qed

section \<open>Similarity before the vectors are built\<close>

text \<open>
  Claim C9. When the student vectors were never built or are empty,
  \<open>compute_similarity\<close> raises the initialization error and does not touch the engine:
  a similarity matrix that was unset stays unset.
\<close>

theorem compute_similarity_uninitialized:
  assumes "student_vectors e = None \<or> (\<exists>v. student_vectors e = Some v \<and> df_empty v)"
  shows "compute_similarity cs e = (e, Inl NotInitialized)
         \<and> (similarity_matrix e = None \<longrightarrow>
              similarity_matrix (fst (compute_similarity cs e)) = None)"
  using assms by (auto simp: compute_similarity_def)

theorem compute_similarity_uninitialized_witness:
  "compute_similarity cosine_similarity init_engine = (init_engine, Inl NotInitialized)
   \<and> similarity_matrix (fst (compute_similarity cosine_similarity init_engine)) = None
   \<and> compute_similarity cosine_similarity
        (fst (create_student_vectors init_engine [] [''C1'']))
      = (fst (create_student_vectors init_engine [] [''C1'']), Inl NotInitialized)
   \<and> similarity_matrix (fst (compute_similarity cosine_similarity
        (fst (create_student_vectors init_engine [] [''C1''])))) = None"
  using compute_similarity_uninitialized [of init_engine cosine_similarity]
    compute_similarity_uninitialized
      [of "fst (create_student_vectors init_engine [] [''C1''])" cosine_similarity]
  by (simp add: init_engine_def create_student_vectors_def add_missing_column_def df_empty_def Let_def)

section \<open>The \<open>top_n\<close> alias\<close>

text \<open>
  Claim C10. A call of \<open>find_similar_students\<close> that passes \<open>top_n\<close> behaves as the
  call with \<open>top_k\<close> set to that value, whatever \<open>top_k\<close> was supplied; without
  \<open>top_n\<close> the supplied \<open>top_k\<close> is the cap. On the example population the default
  \<open>top_k = 5\<close> returns both peers and \<open>top_n = 1\<close> cuts the result to one.
\<close>

theorem top_n_alias:
  "find_similar_students cs e sid top_k (Some n) = find_similar_students cs e sid n None
   \<and> find_similar_students cs e sid top_k (Some n) = find_similar_students cs e sid top_k' (Some n)
   \<and> snd (find_similar_students cosine_similarity example_engine ''S1'' 5 (Some 1))
       = Inr [(''S2'', 1)]
   \<and> snd (find_similar_students cosine_similarity example_engine ''S1'' 5 None)
       = Inr [(''S2'', 1), (''S3'', 3/5)]"
proof -
  have repl: "find_similar_students cs e sid k (Some n) = find_similar_students cs e sid n None"
    for cs e sid k n
    by (simp add: find_similar_students_def Let_def split: option.splits prod.splits)
  have one: "snd (find_similar_students cosine_similarity example_engine ''S1'' 5 (Some 1))
       = Inr [(''S2'', 1)]"
    by (simp add: repl example_find slice_upto_def)
  have all: "snd (find_similar_students cosine_similarity example_engine ''S1'' 5 None)
       = Inr [(''S2'', 1), (''S3'', 3/5)]"
    by (simp add: example_find slice_upto_def)
  from repl [of cs e sid top_k n] repl [of cs e sid top_k' n] one all
  show ?thesis by simp
qed

section \<open>Round trip through the similarity engine\<close>

lemma fold_add_missing_column:
  "length (snd (fold add_missing_column cs tbl)) = length (snd tbl)
   \<and> (fst tbl \<noteq> [] \<longrightarrow> fst (fold add_missing_column cs tbl) \<noteq> [])"
  by (induction cs arbitrary: tbl) (auto simp: add_missing_column_def split: prod.splits)

lemma sort_remdups_nonempty: "xs \<noteq> [] \<Longrightarrow> sort (remdups (map f xs)) \<noteq> []"
proof
  assume "xs \<noteq> []" and "sort (remdups (map f xs)) = []"
  then have "set (sort (remdups (map f xs))) = {}" by simp
  then have "f ` set xs = {}" by simp
  with \<open>xs \<noteq> []\<close> show False by simp
qed

lemma create_student_vectors_frame:
  "student_vectors (fst (create_student_vectors e df all_concepts))
     = Some (snd (create_student_vectors e df all_concepts))
   \<and> similarity_matrix (fst (create_student_vectors e df all_concepts)) = similarity_matrix e
   \<and> index (snd (create_student_vectors e df all_concepts)) = sort (remdups (map student_id df))
   \<and> length (vals (snd (create_student_vectors e df all_concepts)))
       = length (index (snd (create_student_vectors e df all_concepts)))
   \<and> (df \<noteq> [] \<longrightarrow> columns (snd (create_student_vectors e df all_concepts)) \<noteq> [])"
  using fold_add_missing_column
    [of all_concepts "(sort (remdups (map concept_id df)),
        map (\<lambda>s. map (\<lambda>c. pivot_cell df s c) (sort (remdups (map concept_id df))))
          (sort (remdups (map student_id df))))"]
    sort_remdups_nonempty [of df concept_id]
  by (auto simp: create_student_vectors_def Let_def)

lemma others_length:
  assumes "k < n"
  shows "length (filter (\<lambda>i. i \<noteq> k) [0..<n]) = n - 1"
proof -
  have "distinct (filter (\<lambda>i. i \<noteq> k) [0..<n])" by simp
  then have "length (filter (\<lambda>i. i \<noteq> k) [0..<n]) = card (set (filter (\<lambda>i. i \<noteq> k) [0..<n]))"
    by (simp only: distinct_card)
  also have "set (filter (\<lambda>i. i \<noteq> k) [0..<n]) = {0..<n} - {k}" by auto
  also have "card ({0..<n} - {k}) = n - 1" using assms by simp
  finally show ?thesis .
qed

lemma peers_labels:
  assumes "collect_peers idx k (enumerate 0 row) = Inr peers"
  shows "map fst peers = map (\<lambda>i. idx ! i) (filter (\<lambda>i. i \<noteq> k) [0..<length row])"
proof -
  from collect_peers_Inr [OF assms]
  have "peers = map (\<lambda>p. (idx ! fst p, snd p)) (filter (\<lambda>p. fst p \<noteq> k) (enumerate 0 row))"
    by simp
  then have "map fst peers = map (\<lambda>i. idx ! i) (map fst (filter ((\<lambda>i. i \<noteq> k) \<circ> fst) (enumerate 0 row)))"
    by (simp add: comp_def)
  also have "map fst (filter ((\<lambda>i. i \<noteq> k) \<circ> fst) (enumerate 0 row))
               = filter (\<lambda>i. i \<noteq> k) (map fst (enumerate 0 row))"
    by (simp only: filter_map)
  finally show ?thesis by simp
qed

lemma find_similar_students_all_peers:
  assumes shape: "\<And>X. length (cs X) = length X \<and> (\<forall>r \<in> set (cs X). length r = length X)"
    and v: "student_vectors e = Some v" "distinct (index v)"
      "length (vals v) = length (index v)" "columns v \<noteq> []"
    and sid: "sid \<in> set (index v)"
    and m: "similarity_matrix e = None \<or> similarity_matrix e = Some (cs (vals v))"
    and k: "int (length (index v)) - 1 \<le> top_k"
  shows "\<exists>r. snd (find_similar_students cs e sid top_k None) = Inr r
           \<and> length r = length (index v) - 1
           \<and> distinct (map fst r)
           \<and> set (map fst r) = set (index v) - {sid}"
proof -
  let ?idx = "index v" and ?k = "get_loc (index v) sid" and ?m = "cs (vals v)"
  let ?N = "length (index v)"
  from find_similar_students_returns [OF shape v(1,3,4) sid m, of top_k None]
  obtain r where r: "snd (find_similar_students cs e sid top_k None) = Inr r" by auto
  from find_similar_students_Inr [OF r] v(1) m
  obtain peers where peers: "collect_peers ?idx ?k (enumerate 0 (?m ! ?k)) = Inr peers"
    and req: "r = slice_upto (sort_key (\<lambda>x. - snd x) peers) top_k"
    by auto
  have kN: "?k < ?N" using sid by (rule get_loc_less)
  have len: "length ?m = ?N" using shape v(3) by simp
  with kN have "?m ! ?k \<in> set ?m" by simp
  with shape v(3) have row: "length (?m ! ?k) = ?N" by metis
  have labels: "map fst peers = map (\<lambda>i. ?idx ! i) (filter (\<lambda>i. i \<noteq> ?k) [0..<?N])"
    using peers_labels [OF peers] row by simp
  have plen: "length peers = ?N - 1"
    using arg_cong [OF labels, of length] others_length [OF kN] by simp
  have "inj_on (\<lambda>i. ?idx ! i) (set (filter (\<lambda>i. i \<noteq> ?k) [0..<?N]))"
    using v(2) by (intro inj_on_nth) auto
  then have pdist: "distinct (map fst peers)"
    unfolding labels by (simp add: distinct_map)
  have "set (map fst peers) = (\<lambda>i. ?idx ! i) ` ({0..<?N} - {?k})"
    unfolding labels by auto
  also have "\<dots> = set ?idx - {sid}"
  proof (intro equalityI subsetI)
    fix x assume "x \<in> (\<lambda>i. ?idx ! i) ` ({0..<?N} - {?k})"
    then obtain i where "i \<in> {0..<?N} - {?k}" and xi: "x = ?idx ! i" by (rule imageE)
    then have i: "i < ?N" "i \<noteq> ?k" "x = ?idx ! i" using xi by simp_all
    from v(2) i(1) have "get_loc ?idx (?idx ! i) = i" by (rule get_loc_nth)
    with i show "x \<in> set ?idx - {sid}" by auto
  next
    fix x assume x: "x \<in> set ?idx - {sid}"
    then have "get_loc ?idx x < ?N" "?idx ! get_loc ?idx x = x"
      by (simp_all add: get_loc_less nth_get_loc)
    moreover from this x sid have "get_loc ?idx x \<noteq> ?k"
      by (metis DiffD2 insertI1 nth_get_loc)
    ultimately show "x \<in> (\<lambda>i. ?idx ! i) ` ({0..<?N} - {?k})"
      by (metis DiffI atLeastLessThan_iff image_eqI singletonD zero_le)
  qed
  finally have pset: "set (map fst peers) = set ?idx - {sid}" .
  have pos: "0 < ?N" using kN by (cases "index v") simp_all
  have k0: "0 \<le> top_k" using k pos by linarith
  have "length peers \<le> nat top_k" using k pos plen by linarith
  then have "length (sort_key (\<lambda>x. - snd x) peers) \<le> nat top_k" by simp
  with k0 have rall: "r = sort_key (\<lambda>x. - snd x) peers" by (simp add: req slice_upto_def)
  have "mset (map fst r) = mset (map fst peers)" by (simp add: rall)
  then have "distinct (map fst r) = distinct (map fst peers)"
    and "set (map fst r) = set (map fst peers)"
    by (rule mset_eq_imp_distinct_iff, rule mset_eq_setD)
  with r rall plen pdist pset show ?thesis by auto
qed


text \<open>
  Claim C8. For a feature table with \<open>N\<close> distinct students, building the vectors,
  computing the similarity matrix and asking for the \<open>N - 1\<close> nearest peers of one of
  the students returns exactly \<open>N - 1\<close> pairs with no peer twice: every other student
  once.
\<close>

theorem round_trip_all_peers:
  assumes shape: "\<And>X. length (cs X) = length X \<and> (\<forall>r \<in> set (cs X). length r = length X)"
    and sid: "sid \<in> student_id ` set df"
  shows "\<exists>r. snd (find_similar_students cs
                  (fst (compute_similarity cs (fst (create_student_vectors e0 df all_concepts))))
                  sid (int (card (student_id ` set df)) - 1) None) = Inr r
           \<and> length r = card (student_id ` set df) - 1
           \<and> distinct (map fst r)
           \<and> set (map fst r) = student_id ` set df - {sid}"
proof -
  let ?e1 = "fst (create_student_vectors e0 df all_concepts)"
  let ?v = "snd (create_student_vectors e0 df all_concepts)"
  let ?e2 = "fst (compute_similarity cs ?e1)"
  note frame = create_student_vectors_frame [of e0 df all_concepts]
  from sid have df: "df \<noteq> []" by auto
  have idx: "index ?v = sort (remdups (map student_id df))" using frame by simp
  have set_idx: "set (index ?v) = student_id ` set df" by (simp add: idx)
  have dist: "distinct (index ?v)" by (simp add: idx)
  have N: "length (index ?v) = card (student_id ` set df)"
    by (simp add: idx length_remdups_card_conv)
  have cols: "columns ?v \<noteq> []" using frame df by simp
  have ne: "\<not> df_empty ?v" using cols set_idx sid by (auto simp: df_empty_def)
  have v1: "student_vectors ?e1 = Some ?v" using frame by simp
  have v2: "student_vectors ?e2 = Some ?v"
    using v1 by (simp add: compute_similarity_vectors)
  have m2: "similarity_matrix ?e2 = Some (cs (vals ?v))"
    using v1 ne by (simp add: compute_similarity_def Let_def)
  have len: "length (vals ?v) = length (index ?v)" using frame by simp
  have sid': "sid \<in> set (index ?v)" using sid set_idx by simp
  have k: "int (length (index ?v)) - 1 \<le> int (card (student_id ` set df)) - 1"
    by (simp add: N)
  from find_similar_students_all_peers [OF shape v2 dist len cols sid' disjI2 [OF m2] k]
  show ?thesis by (simp only: N set_idx)
qed

lemma example_population: "student_id ` set example_features = {''S1'', ''S2'', ''S3''}"
  by (auto simp: example_features_def)

theorem round_trip_all_peers_witness:
  "\<exists>r. snd (find_similar_students cosine_similarity
                  (fst (compute_similarity cosine_similarity
                     (fst (create_student_vectors init_engine example_features
                             [''C1'', ''C2'', ''C3'']))))
                  ''S1'' 2 None) = Inr r
           \<and> length r = 2
           \<and> distinct (map fst r)
           \<and> set (map fst r) = {''S2'', ''S3''}"
proof -
  have "{''S1'', ''S2'', ''S3''} - {''S1''} = {''S2'', ''S3''}" by auto
  with round_trip_all_peers [of cosine_similarity "''S1''" example_features init_engine
      "[''C1'', ''C2'', ''C3'']"]
  show ?thesis
    by (simp add: cosine_similarity_shape example_population numeral_2_eq_2)
qed

section \<open>Learning path\<close>

lemma path_loop_keep_first:
  "path_loop visited xs
     = map main_step (keep_first wc_concept_id (filter (\<lambda>x. wc_concept_id x \<notin> visited) xs))"
proof (induction xs arbitrary: visited)
  case Nil
  then show ?case by simp
next
  case (Cons c rest)
  have "filter (\<lambda>y. wc_concept_id y \<noteq> wc_concept_id c) (filter (\<lambda>x. wc_concept_id x \<notin> visited) rest)
          = filter (\<lambda>x. wc_concept_id x \<notin> insert (wc_concept_id c) visited) rest"
    by (auto intro: filter_cong)
  with Cons show ?case by simp
qed

lemma insort_key_map_commute:
  "insort_key k (g x) (map g ys) = map g (insort_key (\<lambda>y. k (g y)) x ys)"
  by (induction ys) simp_all

lemma sort_key_map_commute:
  "sort_key k (map g xs) = map g (sort_key (\<lambda>y. k (g y)) xs)"
  by (induction xs) (simp_all add: insort_key_map_commute)

lemma keep_first_map_commute:
  "keep_first f (map g xs) = map g (keep_first (\<lambda>y. f (g y)) xs)"
  by (induction "\<lambda>y. f (g y)" xs rule: keep_first.induct) (simp_all add: filter_map comp_def)

lemma keep_first_subset: "set (keep_first f xs) \<subseteq> set xs"
  by (induction f xs rule: keep_first.induct) auto

lemma keep_first_keys: "f ` set (keep_first f xs) = f ` set xs"
  by (induction f xs rule: keep_first.induct) auto

lemma keep_first_distinct: "distinct (map f (keep_first f xs))"
proof (induction f xs rule: keep_first.induct)
  case (1 f)
  then show ?case by simp
next
  case (2 f x xs)
  have "f x \<notin> f ` set (keep_first f (filter (\<lambda>y. f y \<noteq> f x) xs))"
    using keep_first_subset [of f "filter (\<lambda>y. f y \<noteq> f x) xs"] by auto
  with 2 show ?case by simp
qed

lemma keep_first_sorted_wrt: "sorted_wrt P xs \<Longrightarrow> sorted_wrt P (keep_first f xs)"
proof (induction f xs rule: keep_first.induct)
  case (1 f)
  then show ?case by simp
next
  case (2 f x xs)
  from "2.prems" have "sorted_wrt P (filter (\<lambda>y. f y \<noteq> f x) xs)"
    by (simp add: sorted_wrt_filter)
  with 2 have "sorted_wrt P (keep_first f (filter (\<lambda>y. f y \<noteq> f x) xs))" by simp
  moreover have "\<forall>y \<in> set (keep_first f (filter (\<lambda>y. f y \<noteq> f x) xs)). P x y"
    using "2.prems" keep_first_subset [of f "filter (\<lambda>y. f y \<noteq> f x) xs"] by auto
  ultimately show ?case by simp
qed

lemma enrich_row_resolves:
  "enrich_row tbl w = (if resolves tbl (wc_concept_id w) then [enr tbl w] else [])"
proof (cases "filter (\<lambda>c. cm_concept_id c = wc_concept_id w) tbl")
  case Nil
  then have "\<not> resolves tbl (wc_concept_id w)"
    by (auto simp: resolves_def filter_empty_conv)
  with Nil show ?thesis by (simp add: enrich_row_def)
next
  case (Cons info rest)
  then have "info \<in> set (filter (\<lambda>c. cm_concept_id c = wc_concept_id w) tbl)" by simp
  then have "info \<in> set tbl" "cm_concept_id info = wc_concept_id w" by simp_all
  then have "resolves tbl (wc_concept_id w)" unfolding resolves_def by (metis imageI)
  with Cons show ?thesis by (simp add: enrich_row_def enr_def level_of_def)
qed

lemma enriched_rows:
  "concat (map (enrich_row tbl) ws)
     = map (enr tbl) (filter (\<lambda>w. resolves tbl (wc_concept_id w)) ws)"
  by (induction ws) (simp_all add: enrich_row_resolves)

lemma create_learning_path_refines:
  "create_learning_path R sid weak = learning_path_spec (concepts R) weak"
  by (simp add: create_learning_path_def learning_path_spec_def Let_def enriched_rows
      sort_key_map_commute keep_first_map_commute path_loop_keep_first enr_def main_step_def)


text \<open>
  Claim C7. For every list of weak concepts \<open>create_learning_path\<close> is the path of
  the specification: the concepts without a metadata row dropped, the rest sorted by
  level and then mastery score, one step per concept with the first occurrence kept.
  Every step has target mastery 80, no concept occurs twice, the concepts of the path
  are the resolving concepts of the input, and the steps are in ascending order of
  (level, current mastery).
\<close>

theorem create_learning_path_steps:
  "create_learning_path R sid weak = learning_path_spec (concepts R) weak
   \<and> (\<forall>s \<in> set (create_learning_path R sid weak). target_mastery s = 80)
   \<and> distinct (map ps_concept_id (create_learning_path R sid weak))
   \<and> ps_concept_id ` set (create_learning_path R sid weak)
       = {c \<in> wc_concept_id ` set weak. resolves (concepts R) c}
   \<and> sorted (map (\<lambda>s. (level_of (concepts R) (ps_concept_id s), current_mastery s))
               (create_learning_path R sid weak))"
proof -
  let ?key = "\<lambda>w. (level_of (concepts R) (wc_concept_id w), wc_mastery_score w)"
  let ?res = "filter (\<lambda>w. resolves (concepts R) (wc_concept_id w)) weak"
  let ?ks = "keep_first wc_concept_id (sort_key ?key ?res)"
  let ?step = "\<lambda>w. \<lparr>step_type = ''main'', ps_concept_id = wc_concept_id w,
                ps_concept_name = wc_concept_name w, current_mastery = wc_mastery_score w,
                target_mastery = 80\<rparr>"
  have path: "create_learning_path R sid weak = map ?step ?ks"
    by (simp add: create_learning_path_refines learning_path_spec_def)
  have ids: "map ps_concept_id (map ?step ?ks) = map wc_concept_id ?ks" by simp
  have target: "\<forall>s \<in> set (map ?step ?ks). target_mastery s = 80" by simp
  have dist: "distinct (map ps_concept_id (map ?step ?ks))"
    unfolding ids by (rule keep_first_distinct)
  have "ps_concept_id ` set (map ?step ?ks) = wc_concept_id ` set ?ks"
    by (simp add: image_image)
  also have "\<dots> = wc_concept_id ` set (sort_key ?key ?res)" by (rule keep_first_keys)
  also have "\<dots> = {c \<in> wc_concept_id ` set weak. resolves (concepts R) c}" by auto
  finally have keys: "ps_concept_id ` set (map ?step ?ks)
       = {c \<in> wc_concept_id ` set weak. resolves (concepts R) c}" .
  have "sorted (map ?key (sort_key ?key ?res))" by (rule sorted_sort_key)
  then have "sorted_wrt (\<lambda>a b. ?key a \<le> ?key b) (sort_key ?key ?res)"
    by (simp only: sorted_map)
  then have "sorted_wrt (\<lambda>a b. ?key a \<le> ?key b) ?ks" by (rule keep_first_sorted_wrt)
  then have "sorted (map ?key ?ks)" by (simp only: sorted_map)
  moreover have "map (\<lambda>s. (level_of (concepts R) (ps_concept_id s), current_mastery s))
                   (map ?step ?ks) = map ?key ?ks" by simp
  ultimately have srt: "sorted (map (\<lambda>s. (level_of (concepts R) (ps_concept_id s), current_mastery s))
                   (map ?step ?ks))" by (simp only:)
  show ?thesis
  proof (intro conjI)
    show "create_learning_path R sid weak = learning_path_spec (concepts R) weak"
      by (rule create_learning_path_refines)
    show "\<forall>s \<in> set (create_learning_path R sid weak). target_mastery s = 80"
      unfolding path by (rule target)
    show "distinct (map ps_concept_id (create_learning_path R sid weak))"
      unfolding path by (rule dist)
    show "ps_concept_id ` set (create_learning_path R sid weak)
            = {c \<in> wc_concept_id ` set weak. resolves (concepts R) c}"
      unfolding path by (rule keys)
    show "sorted (map (\<lambda>s. (level_of (concepts R) (ps_concept_id s), current_mastery s))
               (create_learning_path R sid weak))"
      unfolding path by (rule srt)
  qed
qed

lemma example_path:
  "create_learning_path example_recommender ''S1'' example_weak
     = [\<lparr>step_type = ''main'', ps_concept_id = ''C2'', ps_concept_name = Some ''Geometry'',
          current_mastery = 55, target_mastery = 80\<rparr>,
        \<lparr>step_type = ''main'', ps_concept_id = ''C1'', ps_concept_name = Some ''Algebra'',
          current_mastery = 45, target_mastery = 80\<rparr>]"
  by (simp add: create_learning_path_def example_recommender_def example_concepts_def
      example_weak_def enrich_row_def main_step_def Let_def)

theorem create_learning_path_steps_witness:
  "create_learning_path example_recommender ''S1'' example_weak
     = learning_path_spec example_concepts example_weak
   \<and> map (\<lambda>s. (ps_concept_id s, current_mastery s, target_mastery s))
         (create_learning_path example_recommender ''S1'' example_weak)
       = [(''C2'', 55, 80), (''C1'', 45, 80)]"
proof -
  note steps = create_learning_path_steps [of example_recommender "''S1''" example_weak]
  have tbl: "concepts example_recommender = example_concepts"
    by (simp add: example_recommender_def)
  from steps have "create_learning_path example_recommender ''S1'' example_weak
     = learning_path_spec (concepts example_recommender) example_weak" by (rule conjunct1)
  then have refines: "create_learning_path example_recommender ''S1'' example_weak
     = learning_path_spec example_concepts example_weak" by (simp only: tbl)
  have "map (\<lambda>s. (ps_concept_id s, current_mastery s, target_mastery s))
         (create_learning_path example_recommender ''S1'' example_weak)
       = [(''C2'', 55, 80), (''C1'', 45, 80)]"
    by (simp add: example_path)
  with refines show ?thesis by blast
qed

section \<open>Merging the recommendations\<close>

lemma merge_recommendations_snoc:
  "merge_recommendations (rs @ [r]) = AList.update (rec_key r) r (merge_recommendations rs)"
  by (simp add: merge_recommendations_def)

lemma update_tabulated:
  "distinct ks \<Longrightarrow>
   AList.update k v (map (\<lambda>k'. (k', f k')) ks)
     = (if k \<in> set ks then map (\<lambda>k'. (k', if k' = k then v else f k')) ks
        else map (\<lambda>k'. (k', f k')) ks @ [(k, v)])"
  by (induction ks) auto

lemma first_occurrences_snoc:
  "first_occurrences (ks @ [k])
     = (if k \<in> set ks then first_occurrences ks else first_occurrences ks @ [k])"
  by (simp add: first_occurrences_def)

lemma set_first_occurrences: "set (first_occurrences ks) = set ks"
  by (simp add: first_occurrences_def)

lemma distinct_first_occurrences: "distinct (first_occurrences ks)"
  by (simp add: first_occurrences_def)

lemma merge_recommendations_spec: "merge_recommendations rs = merged_mapping_spec rs"
proof (induction rs rule: rev_induct)
  case Nil
  then show ?case
    by (simp add: merge_recommendations_def merged_mapping_spec_def first_occurrences_def)
next
  case (snoc r rs)
  let ?k = "rec_key r" and ?ks = "first_occurrences (map rec_key rs)"
  let ?g = "\<lambda>k. last (filter (\<lambda>x. rec_key x = k) rs)"
  let ?g' = "\<lambda>k. last (filter (\<lambda>x. rec_key x = k) (rs @ [r]))"
  have g': "?g' k = (if k = ?k then r else ?g k)" for k by auto
  have step: "merge_recommendations (rs @ [r]) = AList.update ?k r (map (\<lambda>k. (k, ?g k)) ?ks)"
    using snoc by (simp add: merge_recommendations_snoc merged_mapping_spec_def)
  show ?case
  proof (cases "?k \<in> set (map rec_key rs)")
    case True
    then have "?k \<in> set ?ks" by (simp add: set_first_occurrences)
    then have "AList.update ?k r (map (\<lambda>k. (k, ?g k)) ?ks)
                 = map (\<lambda>k. (k, if k = ?k then r else ?g k)) ?ks"
      by (simp add: update_tabulated distinct_first_occurrences)
    also have "\<dots> = map (\<lambda>k. (k, ?g' k)) ?ks" by (simp only: g')
    also have "\<dots> = merged_mapping_spec (rs @ [r])"
      using True by (simp add: merged_mapping_spec_def first_occurrences_snoc)
    finally show ?thesis using step by simp
  next
    case False
    then have notin: "?k \<notin> set ?ks" by (simp add: set_first_occurrences)
    then have upd: "AList.update ?k r (map (\<lambda>k. (k, ?g k)) ?ks) = map (\<lambda>k. (k, ?g k)) ?ks @ [(?k, r)]"
      by (simp add: update_tabulated distinct_first_occurrences)
    have same: "map (\<lambda>k. (k, ?g' k)) ?ks = map (\<lambda>k. (k, ?g k)) ?ks"
      using notin by (intro map_cong) (auto simp: g')
    have "merged_mapping_spec (rs @ [r]) = map (\<lambda>k. (k, ?g' k)) ?ks @ [(?k, ?g' ?k)]"
      using False by (simp add: merged_mapping_spec_def first_occurrences_snoc)
    also have "\<dots> = map (\<lambda>k. (k, ?g k)) ?ks @ [(?k, r)]"
    proof -
      have "?g' ?k = r" by simp
      then show ?thesis by (simp only: same)
    qed
    finally show ?thesis using step upd by simp
  qed
qed

lemma merged_mapping_spec_keys:
  "map fst (merged_mapping_spec rs) = first_occurrences (map rec_key rs)"
  by (simp add: merged_mapping_spec_def comp_def)

lemma merged_mapping_spec_value_keys:
  "map (rec_key \<circ> snd) (merged_mapping_spec rs) = first_occurrences (map rec_key rs)"
proof -
  have "rec_key (last (filter (\<lambda>x. rec_key x = k) rs)) = k"
    if "k \<in> set (first_occurrences (map rec_key rs))" for k
  proof -
    from that have "filter (\<lambda>x. rec_key x = k) rs \<noteq> []"
      by (auto simp: set_first_occurrences filter_empty_conv)
    then have "last (filter (\<lambda>x. rec_key x = k) rs) \<in> set (filter (\<lambda>x. rec_key x = k) rs)"
      by (rule last_in_set)
    then show ?thesis by simp
  qed
  then have "map (\<lambda>k. rec_key (last (filter (\<lambda>x. rec_key x = k) rs)))
               (first_occurrences (map rec_key rs))
             = map (\<lambda>k. k) (first_occurrences (map rec_key rs))"
    by (intro map_cong) auto
  then show ?thesis by (simp add: merged_mapping_spec_def comp_def)
qed

lemma merged_mapping_spec_lookup:
  assumes "k \<in> rec_key ` set rs"
  shows "map_of (merged_mapping_spec rs) k = Some (last (filter (\<lambda>x. rec_key x = k) rs))"
proof -
  from assms have "k \<in> set (first_occurrences (map rec_key rs))"
    by (simp add: set_first_occurrences)
  then show ?thesis
    by (simp add: merged_mapping_spec_def map_of_map_restrict)
qed

lemma last_writer:
  assumes "k \<in> rec_key ` set bs"
  shows "last (filter (\<lambda>x. rec_key x = k) (cs @ bs)) = last (filter (\<lambda>x. rec_key x = k) bs)"
proof -
  from assms have "filter (\<lambda>x. rec_key x = k) bs \<noteq> []" by (auto simp: filter_empty_conv)
  then show ?thesis by simp
qed


lemma generate_personalized_plan_Inr:
  assumes "snd (generate_personalized_plan cs R e sid) = Inr p"
  shows "\<exists>weak e1 similar e2 patterns.
      get_weak_concepts sid (Some (student_features R)) = Some weak
    \<and> find_similar_students cs e sid 5 None = (e1, Inr similar)
    \<and> analyze_peer_patterns cs e1 sid 5 70 = (e2, Inr patterns)
    \<and> recommendations p =
        take 5 (map snd (merge_recommendations
          (get_content_based_recommendations R sid weak 3
             @ get_behavior_based_recommendations R sid similar patterns)))
    \<and> learning_path p = create_learning_path R sid weak"
  using assms
  by (auto simp: generate_personalized_plan_def Let_def
           split: prod.splits sum.splits option.splits list.splits)

lemma example_find_fresh:
  "find_similar_students cosine_similarity example_engine ''S1'' 5 None
     = (example_engine_cached, Inr [(''S2'', 1), (''S3'', 3/5)])"
  by (simp add: example_engine_eq example_engine_cached_def find_similar_students_def
      compute_similarity_def df_empty_def ex_cos Let_def enumerate_eq_zip upt_rec [of 0]
      slice_upto_def)

lemma example_find_cached:
  "find_similar_students cosine_similarity example_engine_cached ''S1'' 5 None
     = (example_engine_cached, Inr [(''S2'', 1), (''S3'', 3/5)])"
  by (simp add: example_engine_cached_def find_similar_students_def
      Let_def enumerate_eq_zip upt_rec [of 0] slice_upto_def)

lemma example_patterns:
  "analyze_peer_patterns cosine_similarity example_engine_cached ''S1'' 5 70
     = (example_engine_cached,
        Inr [(''S2'', \<lparr>similarity = 1, strong_concepts = [(''C1'', 96), (''C2'', 72)]\<rparr>),
             (''S3'', \<lparr>similarity = 3/5, strong_concepts = [(''C2'', 100)]\<rparr>)])"
  by (simp add: analyze_peer_patterns_def example_find_cached)
     (simp add: example_engine_cached_def)

lemma example_weak_concepts:
  "get_weak_concepts ''S1'' (Some (student_features example_recommender))
     = Some [\<lparr>wc_concept_id = ''C2'', wc_concept_name = Some ''Geometry'',
               wc_mastery_score = 60, wc_mastery_level = Beginner\<rparr>]"
  by (simp add: example_recommender_def example_features_def get_weak_concepts_def
      weak_columns_def)


lemma example_content_recs:
  "get_content_based_recommendations example_recommender ''S1''
     [\<lparr>wc_concept_id = ''C2'', wc_concept_name = Some ''Geometry'',
        wc_mastery_score = 60, wc_mastery_level = Beginner\<rparr>] 3
   = example_content"
  by (simp add: get_content_based_recommendations_def content_for_concept_def
      example_recommender_def example_resources_def content_item_def slice_upto_def
      example_content_def example_low_item_def Let_def)

lemma example_behavior_recs:
  "get_behavior_based_recommendations example_recommender ''S1''
     [(''S2'', 1), (''S3'', 3/5)]
     [(''S2'', \<lparr>similarity = 1, strong_concepts = [(''C1'', 96), (''C2'', 72)]\<rparr>),
      (''S3'', \<lparr>similarity = 3/5, strong_concepts = [(''C2'', 100)]\<rparr>)]
   = [example_peer_item ''S2'' 1, example_peer_item ''S3'' (3/5)]"
  by (simp add: get_behavior_based_recommendations_def behavior_for_concept_def
      example_recommender_def example_resources_def example_features_def behavior_item_def
      example_peer_item_def Let_def)

lemma example_merge:
  "merge_recommendations (example_content @ [example_peer_item ''S2'' 1, example_peer_item ''S3'' (3/5)])
   = [((''C2'', ''R2''), example_peer_item ''S3'' (3/5)), ((''C2'', ''R1''), example_low_item (example_resources ! 0))]"
  by (simp add: merge_recommendations_def example_content_def example_peer_item_def
      example_low_item_def example_resources_def rec_key_def)

text \<open>
  Claim C6. In a plan that \<open>generate_personalized_plan\<close> returns, the content-based
  items followed by the behavior-based items are merged into a mapping keyed by
  \<open>(concept_id, resource_id)\<close>: one entry per key, keys in the order of their first
  insertion, each key with the last item stored under it, so that a behavior-based item
  replaces a content-based item of the same key. The plan's recommendations are the
  first five values of that mapping in insertion order, and no two of them have the same
  key.
\<close>

theorem plan_recommendations_merged:
  assumes "snd (generate_personalized_plan cs R e sid) = Inr p"
  shows "\<exists>weak e1 similar e2 patterns content behavior.
      get_weak_concepts sid (Some (student_features R)) = Some weak
    \<and> find_similar_students cs e sid 5 None = (e1, Inr similar)
    \<and> analyze_peer_patterns cs e1 sid 5 70 = (e2, Inr patterns)
    \<and> content = get_content_based_recommendations R sid weak 3
    \<and> behavior = get_behavior_based_recommendations R sid similar patterns
    \<and> merge_recommendations (content @ behavior) = merged_mapping_spec (content @ behavior)
    \<and> recommendations p = take 5 (map snd (merged_mapping_spec (content @ behavior)))
    \<and> distinct (map rec_key (recommendations p))
    \<and> (\<forall>k \<in> rec_key ` set behavior.
          map_of (merged_mapping_spec (content @ behavior)) k
            = Some (last (filter (\<lambda>x. rec_key x = k) behavior)))"
proof -
  from generate_personalized_plan_Inr [OF assms]
  obtain weak e1 similar e2 patterns where
    calls: "get_weak_concepts sid (Some (student_features R)) = Some weak"
      "find_similar_students cs e sid 5 None = (e1, Inr similar)"
      "analyze_peer_patterns cs e1 sid 5 70 = (e2, Inr patterns)"
    and recs: "recommendations p =
        take 5 (map snd (merge_recommendations
          (get_content_based_recommendations R sid weak 3
             @ get_behavior_based_recommendations R sid similar patterns)))"
    by blast
  let ?c = "get_content_based_recommendations R sid weak 3"
  let ?b = "get_behavior_based_recommendations R sid similar patterns"
  have refines: "merge_recommendations (?c @ ?b) = merged_mapping_spec (?c @ ?b)"
    by (rule merge_recommendations_spec)
  have recs': "recommendations p = take 5 (map snd (merged_mapping_spec (?c @ ?b)))"
    using recs by (simp only: refines)
  have "map rec_key (recommendations p)
          = take 5 (map (rec_key \<circ> snd) (merged_mapping_spec (?c @ ?b)))"
    by (simp add: recs' take_map)
  then have "map rec_key (recommendations p)
          = take 5 (first_occurrences (map rec_key (?c @ ?b)))"
    by (simp only: merged_mapping_spec_value_keys)
  then have dist: "distinct (map rec_key (recommendations p))"
    by (simp add: distinct_first_occurrences)
  have last: "\<forall>k \<in> rec_key ` set ?b.
          map_of (merged_mapping_spec (?c @ ?b)) k = Some (last (filter (\<lambda>x. rec_key x = k) ?b))"
  proof
    fix k assume k: "k \<in> rec_key ` set ?b"
    then have "k \<in> rec_key ` set (?c @ ?b)" by auto
    then have "map_of (merged_mapping_spec (?c @ ?b)) k
                 = Some (last (filter (\<lambda>x. rec_key x = k) (?c @ ?b)))"
      by (rule merged_mapping_spec_lookup)
    with last_writer [OF k, of ?c]
    show "map_of (merged_mapping_spec (?c @ ?b)) k = Some (last (filter (\<lambda>x. rec_key x = k) ?b))"
      by simp
  qed
  from calls refines recs' dist last show ?thesis by blast
qed

lemma example_schedule:
  "create_study_schedule [example_peer_item ''S3'' (3/5), example_low_item (example_resources ! 0)] ''visual''
     = [(''Monday'', [\<lparr>se_concept = Some ''C2'', se_activity = ''article'', se_duration = 30,
                         se_resource = ''Proofs''\<rparr>]),
         (''Tuesday'', [\<lparr>se_concept = Some ''Geometry'', se_activity = ''video'',
                          se_duration = 15, se_resource = ''Shapes''\<rparr>]),
         (''Wednesday'', []), (''Thursday'', []), (''Friday'', []), (''Saturday'', []),
         (''Sunday'', [])]"
  by (simp add: create_study_schedule_def example_peer_item_def example_low_item_def
      example_resources_def days_def enumerate_eq_zip upt_rec [of 0])

lemma example_plan_path:
  "create_learning_path example_recommender ''S1''
     [\<lparr>wc_concept_id = ''C2'', wc_concept_name = Some ''Geometry'',
        wc_mastery_score = 60, wc_mastery_level = Beginner\<rparr>]
   = [\<lparr>step_type = ''main'', ps_concept_id = ''C2'', ps_concept_name = Some ''Geometry'',
           current_mastery = 60, target_mastery = 80\<rparr>]"
  by (simp add: create_learning_path_def example_recommender_def example_concepts_def
      enrich_row_def main_step_def Let_def)

lemma example_plan_value:
  "generate_personalized_plan cosine_similarity example_recommender example_engine ''S1''
     = (example_engine_cached, Inr example_plan_result)"
proof -
  have st: "filter (\<lambda>s. st_student_id s = ''S1'') (students example_recommender)
              = [\<lparr>st_student_id = ''S1'', learning_style = ''visual''\<rparr>]"
    by (simp add: example_recommender_def example_students_def)
  have recs: "take 5 (map snd (merge_recommendations
                 (example_content @ [example_peer_item ''S2'' 1, example_peer_item ''S3'' (3/5)])))
              = [example_peer_item ''S3'' (3/5), example_low_item (example_resources ! 0)]"
    by (simp add: example_merge)
  have all: "map snd (merge_recommendations
                 (example_content @ [example_peer_item ''S2'' 1, example_peer_item ''S3'' (3/5)]))
              = [example_peer_item ''S3'' (3/5), example_low_item (example_resources ! 0)]"
    by (simp add: example_merge)
  show ?thesis
    unfolding generate_personalized_plan_def example_plan_result_def
    by (simp only: example_weak_concepts example_find_fresh example_patterns
        example_content_recs example_behavior_recs st recs all example_schedule
        example_plan_path Let_def prod.case sum.case option.case list.case)
       (simp add: example_schedule example_plan_path)
qed

text \<open>
  On the example both peers propose resource \<open>R2\<close> for concept \<open>C2\<close>, which the
  content-based step proposed first: the entry keeps its first place and carries the
  last peer's item.
\<close>

theorem plan_recommendations_merged_witness:
  "snd (generate_personalized_plan cosine_similarity example_recommender example_engine ''S1'')
     = Inr example_plan_result
   \<and> recommendations example_plan_result
       = [example_peer_item ''S3'' (3/5), example_low_item (example_resources ! 0)]
   \<and> distinct (map rec_key (recommendations example_plan_result))"
proof -
  have plan: "snd (generate_personalized_plan cosine_similarity example_recommender
                     example_engine ''S1'') = Inr example_plan_result"
    by (simp add: example_plan_value)
  from plan_recommendations_merged [OF plan]
  have "distinct (map rec_key (recommendations example_plan_result))" by blast
  with plan show ?thesis by (simp add: example_plan_result_def)
qed


section \<open>Peer strong concepts\<close>

lemma update_entries:
  "x \<in> set (AList.update k v al) \<Longrightarrow> x = (k, v) \<or> x \<in> set al"
  by (induction al) (auto split: if_splits)

lemma peer_loop_entries:
  assumes "peer_loop v th sims acc = Inr pats"
    and "\<forall>entry \<in> set acc. strong_concepts (snd entry)
           = take 5 (filter (\<lambda>item. th \<le> snd item)
                       (zip (columns v) (vals v ! get_loc (index v) (fst entry))))"
  shows "\<forall>entry \<in> set pats. strong_concepts (snd entry)
           = take 5 (filter (\<lambda>item. th \<le> snd item)
                       (zip (columns v) (vals v ! get_loc (index v) (fst entry))))"
  using assms
proof (induction v th sims acc rule: peer_loop.induct)
  case (1 v th acc)
  then show ?case by simp
next
  case (2 v th peer_id sim rest acc)
  let ?info = "\<lparr>similarity = sim,
                 strong_concepts = take 5 (filter (\<lambda>item. th \<le> snd item)
                   (zip (columns v) (vals v ! get_loc (index v) peer_id)))\<rparr>"
  from "2.prems"(1) have ok: "peer_id \<in> set (index v) \<and> get_loc (index v) peer_id < length (vals v)"
    and rest: "peer_loop v th rest (AList.update peer_id ?info acc) = Inr pats"
    by (auto simp: Let_def split: if_splits)
  have "\<forall>entry \<in> set (AList.update peer_id ?info acc). strong_concepts (snd entry)
           = take 5 (filter (\<lambda>item. th \<le> snd item)
                       (zip (columns v) (vals v ! get_loc (index v) (fst entry))))"
    using "2.prems"(2) by (auto dest!: update_entries)
  with "2.IH" ok rest show ?case by (simp add: Let_def)
qed

lemma find_similar_students_vectors:
  "student_vectors (fst (find_similar_students cs e sid top_k top_n)) = student_vectors e"
  by (auto simp: find_similar_students_def compute_similarity_def Let_def
           split: option.splits sum.splits prod.splits if_splits)

lemma analyze_peer_patterns_entries:
  assumes "analyze_peer_patterns cs e sid top_k th = (e2, Inr pats)"
    and "student_vectors e = Some v"
  shows "\<forall>entry \<in> set pats. strong_concepts (snd entry)
           = take 5 (filter (\<lambda>item. th \<le> snd item)
                       (zip (columns v) (vals v ! get_loc (index v) (fst entry))))"
proof (cases "find_similar_students cs e sid top_k None")
  case (Pair e1 res)
  then have "student_vectors e1 = student_vectors e"
    using find_similar_students_vectors [of cs e sid top_k None] by simp
  with assms(2) have v: "student_vectors e1 = Some v" by simp
  show ?thesis
  proof (cases res)
    case (Inl err)
    with Pair assms(1) show ?thesis by (simp add: analyze_peer_patterns_def)
  next
    case (Inr similar)
    show ?thesis
    proof (cases "similar = []")
      case True
      with Pair Inr assms(1) show ?thesis by (simp add: analyze_peer_patterns_def)
    next
      case False
      with Pair Inr assms(1) v have "peer_loop v th similar [] = Inr pats"
        by (simp add: analyze_peer_patterns_def)
      then show ?thesis by (rule peer_loop_entries) simp
    qed
  qed
qed

lemma behavior_for_concept_item:
  assumes "r \<in> set (behavior_for_concept R sid peer_id sim sc)"
  shows "rec_concept_id r = fst sc
    \<and> (let mastery = filter (\<lambda>f. student_id f = sid \<and> concept_id f = fst sc) (student_features R)
       in \<not> (mastery \<noteq> [] \<and> 80 \<le> mastery_score (hd mastery)))"
  using assms
  by (auto simp: behavior_for_concept_def behavior_item_def Let_def
           split: if_splits list.splits)

lemma behavior_recommendations_items:
  assumes "r \<in> set (get_behavior_based_recommendations R sid similar patterns)"
  shows "(\<exists>entry \<in> set patterns. rec_concept_id r \<in> fst ` set (strong_concepts (snd entry)))
    \<and> (let mastery = filter (\<lambda>f. student_id f = sid \<and> concept_id f = rec_concept_id r)
                        (student_features R)
       in \<not> (mastery \<noteq> [] \<and> 80 \<le> mastery_score (hd mastery)))"
proof -
  from assms obtain peer_id info sc where entry: "(peer_id, info) \<in> set patterns"
    and sc: "sc \<in> set (strong_concepts info)"
    and r: "r \<in> set (behavior_for_concept R sid peer_id (similarity info) sc)"
    by (auto simp: get_behavior_based_recommendations_def)
  from behavior_for_concept_item [OF r]
  have cid: "rec_concept_id r = fst sc"
    and skip: "let mastery = filter (\<lambda>f. student_id f = sid \<and> concept_id f = fst sc)
                               (student_features R)
               in \<not> (mastery \<noteq> [] \<and> 80 \<le> mastery_score (hd mastery))"
    by simp_all
  from entry sc cid have "\<exists>entry \<in> set patterns.
      rec_concept_id r \<in> fst ` set (strong_concepts (snd entry))"
    by force
  with skip cid show ?thesis by simp
qed

text \<open>
  Claim C2, as amended. In \<open>generate_personalized_plan\<close> the peer patterns are computed
  with the default threshold 70: the strong concepts of a peer are the concepts whose
  entry in the peer's vector is at least 70, in vector column order, cut to the first
  five. Every behavior-based recommendation is for a strong concept of some peer, and
  none is for a concept on which the student's own feature row (the first one) has a
  mastery score of 80 or more.
\<close>

theorem behavior_recommendations_peer_concepts:
  assumes plan: "snd (generate_personalized_plan cs R e sid) = Inr p"
    and v: "student_vectors e = Some v"
  shows "\<exists>e1 similar e2 patterns.
      find_similar_students cs e sid 5 None = (e1, Inr similar)
    \<and> analyze_peer_patterns cs e1 sid 5 70 = (e2, Inr patterns)
    \<and> (\<forall>entry \<in> set patterns. strong_concepts (snd entry)
           = take 5 (filter (\<lambda>item. 70 \<le> snd item)
                       (zip (columns v) (vals v ! get_loc (index v) (fst entry)))))
    \<and> (\<forall>r \<in> set (get_behavior_based_recommendations R sid similar patterns).
          (\<exists>entry \<in> set patterns. rec_concept_id r \<in> fst ` set (strong_concepts (snd entry)))
          \<and> (let mastery = filter (\<lambda>f. student_id f = sid \<and> concept_id f = rec_concept_id r)
                              (student_features R)
             in \<not> (mastery \<noteq> [] \<and> 80 \<le> mastery_score (hd mastery))))"
proof -
  from generate_personalized_plan_Inr [OF plan]
  obtain e1 similar e2 patterns where
    calls: "find_similar_students cs e sid 5 None = (e1, Inr similar)"
      "analyze_peer_patterns cs e1 sid 5 70 = (e2, Inr patterns)"
    by blast
  from calls(1) have "student_vectors e1 = student_vectors e"
    using find_similar_students_vectors [of cs e sid 5 None] by simp
  with v have "student_vectors e1 = Some v" by simp
  from analyze_peer_patterns_entries [OF calls(2) this]
  have strong: "\<forall>entry \<in> set patterns. strong_concepts (snd entry)
           = take 5 (filter (\<lambda>item. 70 \<le> snd item)
                       (zip (columns v) (vals v ! get_loc (index v) (fst entry))))" .
  from calls strong behavior_recommendations_items [of _ R sid similar patterns]
  show ?thesis by blast
qed

theorem behavior_recommendations_peer_concepts_witness:
  "snd (generate_personalized_plan cosine_similarity example_recommender example_engine ''S1'')
     = Inr example_plan_result
   \<and> analyze_peer_patterns cosine_similarity example_engine_cached ''S1'' 5 70
       = (example_engine_cached, Inr example_patterns_value)
   \<and> strong_concepts (snd (example_patterns_value ! 0))
       = take 5 (filter (\<lambda>item. 70 \<le> snd item)
                  (zip [''C1'', ''C2'', ''C3'']
                     ([[80, 60, 0], [96, 72, 0], [0, 100, 0]]
                        ! get_loc [''S1'', ''S2'', ''S3''] ''S2'')))"
proof -
  let ?v = "\<lparr>index = [''S1'', ''S2'', ''S3''], columns = [''C1'', ''C2'', ''C3''],
             vals = [[80, 60, 0], [96, 72, 0], [0, 100, 0]]\<rparr>"
  have plan: "snd (generate_personalized_plan cosine_similarity example_recommender
                     example_engine ''S1'') = Inr example_plan_result"
    by (simp add: example_plan_value)
  have v: "student_vectors example_engine = Some ?v" by (simp add: example_engine_eq)
  have pats: "analyze_peer_patterns cosine_similarity example_engine_cached ''S1'' 5 70
       = (example_engine_cached, Inr example_patterns_value)"
    by (simp add: example_patterns example_patterns_value_def)
  from behavior_recommendations_peer_concepts [OF plan v]
  obtain e1 similar e2 patterns where
    calls: "find_similar_students cosine_similarity example_engine ''S1'' 5 None
              = (e1, Inr similar)"
      "analyze_peer_patterns cosine_similarity e1 ''S1'' 5 70 = (e2, Inr patterns)"
    and strong: "\<forall>entry \<in> set patterns. strong_concepts (snd entry)
           = take 5 (filter (\<lambda>item. 70 \<le> snd item)
                       (zip (columns ?v) (vals ?v ! get_loc (index ?v) (fst entry))))"
    by blast
  from calls(1) have "e1 = example_engine_cached" by (simp add: example_find_fresh)
  with calls(2) pats have "patterns = example_patterns_value" by simp
  then have "example_patterns_value ! 0 \<in> set patterns"
    by (simp add: example_patterns_value_def)
  with strong have "strong_concepts (snd (example_patterns_value ! 0))
           = take 5 (filter (\<lambda>item. 70 \<le> snd item)
                (zip (columns ?v)
                   (vals ?v ! get_loc (index ?v) (fst (example_patterns_value ! 0)))))"
    by blast
  then have "strong_concepts (snd (example_patterns_value ! 0))
       = take 5 (filter (\<lambda>item. 70 \<le> snd item)
                  (zip [''C1'', ''C2'', ''C3'']
                     ([[80, 60, 0], [96, 72, 0], [0, 100, 0]]
                        ! get_loc [''S1'', ''S2'', ''S3''] ''S2'')))"
    by (simp add: example_patterns_value_def)
  with plan pats show ?thesis by blast
qed

lemma example_wide_patterns:
  "snd (analyze_peer_patterns cosine_similarity example_wide_engine ''S1'' 5 70)
     = Inr [(''S2'', \<lparr>similarity = 1,
                       strong_concepts = [(''C1'', 90), (''C2'', 90), (''C3'', 90), (''C4'', 90),
                                          (''C5'', 90)]\<rparr>)]"
  by (simp add: analyze_peer_patterns_def find_similar_students_def example_wide_engine_def
      Let_def enumerate_eq_zip upt_rec [of 0] slice_upto_def)

text \<open>
  Claim C2 as stated fails. For student \<open>S1\<close> the strong concepts of peer \<open>S2\<close>
  include \<open>C2\<close>, on which \<open>S2\<close> has 72, below 80, and the behavior-based step
  recommends a resource for \<open>C2\<close> citing \<open>S2\<close>. And of a peer at 90 on six concepts
  only the first five are strong concepts: the sixth, \<open>C6\<close>, is left out.
\<close>

theorem peer_threshold_counterexample:
  "find_similar_students cosine_similarity example_engine ''S1'' 5 None
     = (example_engine_cached, Inr [(''S2'', 1), (''S3'', 3/5)])
   \<and> analyze_peer_patterns cosine_similarity example_engine_cached ''S1'' 5 70
       = (example_engine_cached, Inr example_patterns_value)
   \<and> strong_concepts (snd (example_patterns_value ! 0)) = [(''C1'', 96), (''C2'', 72)]
   \<and> \<not> (80 :: real) \<le> 72
   \<and> get_behavior_based_recommendations example_recommender ''S1''
         [(''S2'', 1), (''S3'', 3/5)] example_patterns_value
       = [example_peer_item ''S2'' 1, example_peer_item ''S3'' (3/5)]
   \<and> rec_concept_id (example_peer_item ''S2'' 1) = ''C2''
   \<and> rec_reason (example_peer_item ''S2'' 1) = Used_by_peer ''S2'' 1
   \<and> snd (analyze_peer_patterns cosine_similarity example_wide_engine ''S1'' 5 70)
       = Inr [(''S2'', \<lparr>similarity = 1,
                         strong_concepts = [(''C1'', 90), (''C2'', 90), (''C3'', 90),
                                            (''C4'', 90), (''C5'', 90)]\<rparr>)]
   \<and> (80 :: real) \<le> 90"
  by (simp add: example_find_fresh example_patterns example_patterns_value_def
      example_behavior_recs example_peer_item_def example_wide_patterns)

section \<open>Weak-concept lookup\<close>

text \<open>
  Claim C3, as amended. \<open>get_weak_concepts\<close> raises nothing. For a missing or empty
  feature table and for a student without rows it returns Python's \<open>None\<close>: no table,
  not the empty table. For a student with rows it returns a table: the columns
  \<open>concept_id\<close>, \<open>concept_name\<close>, \<open>mastery_score\<close> and \<open>mastery_level\<close> of exactly
  that student's rows of level Struggling or Beginner, in ascending order of mastery
  score.
\<close>

theorem get_weak_concepts_result:
  "(features = None \<or> features = Some [] \<longrightarrow>
      get_weak_concepts sid features = None)
   \<and> (sid \<notin> student_id ` set rows \<longrightarrow> get_weak_concepts sid (Some rows) = None)
   \<and> (sid \<in> student_id ` set rows \<longrightarrow>
        (\<exists>out. get_weak_concepts sid (Some rows) = Some out
           \<and> sorted (map wc_mastery_score out)
           \<and> mset out =
               mset (map (\<lambda>r. \<lparr>wc_concept_id = concept_id r, wc_concept_name = concept_name r,
                                 wc_mastery_score = mastery_score r,
                                 wc_mastery_level = mastery_level r\<rparr>)
                      (filter (\<lambda>r. student_id r = sid \<and> mastery_level r \<in> {Struggling, Beginner})
                         rows))))"
proof (intro conjI impI)
  assume "features = None \<or> features = Some []"
  then show "get_weak_concepts sid features = None"
    by (auto simp: get_weak_concepts_def)
next
  assume "sid \<notin> student_id ` set rows"
  then have "filter (\<lambda>r. student_id r = sid) rows = []"
    by (auto simp: filter_empty_conv)
  then show "get_weak_concepts sid (Some rows) = None"
    by (simp add: get_weak_concepts_def)
next
  assume sid: "sid \<in> student_id ` set rows"
  let ?proj = "\<lambda>r. \<lparr>wc_concept_id = concept_id r, wc_concept_name = concept_name r,
                       wc_mastery_score = mastery_score r,
                       wc_mastery_level = mastery_level r\<rparr>"
  let ?data = "filter (\<lambda>r. student_id r = sid) rows"
  let ?weak = "filter (\<lambda>r. mastery_level r \<in> {Struggling, Beginner}) ?data"
  let ?out = "map ?proj (sort_key mastery_score ?weak)"
  have proj: "weak_columns = ?proj" by (rule ext) (simp add: weak_columns_def)
  from sid have ne: "rows \<noteq> []" "?data \<noteq> []" by (auto simp: filter_empty_conv)
  then have res: "get_weak_concepts sid (Some rows) = Some ?out"
    by (simp add: get_weak_concepts_def Let_def proj)
  have "map wc_mastery_score ?out = map mastery_score (sort_key mastery_score ?weak)"
    by simp
  then have srt: "sorted (map wc_mastery_score ?out)" by (simp only: sorted_sort_key)
  have weak_eq:
    "filter (\<lambda>r. student_id r = sid \<and> mastery_level r \<in> {Struggling, Beginner}) rows = ?weak"
    by (simp add: conj_commute)
  have ms: "mset ?out =
      mset (map ?proj
             (filter (\<lambda>r. student_id r = sid \<and> mastery_level r \<in> {Struggling, Beginner}) rows))"
    unfolding weak_eq by simp
  from res srt ms
  show "\<exists>out. get_weak_concepts sid (Some rows) = Some out
           \<and> sorted (map wc_mastery_score out)
           \<and> mset out =
               mset (map ?proj
                      (filter (\<lambda>r. student_id r = sid \<and> mastery_level r \<in> {Struggling, Beginner})
                         rows))"
    by blast
qed

theorem get_weak_concepts_result_witness:
  "get_weak_concepts ''S9'' None = None
   \<and> get_weak_concepts ''S9'' (Some []) = None
   \<and> get_weak_concepts ''S9'' (Some example_features) = None
   \<and> get_weak_concepts ''S1'' (Some example_features)
       = Some [\<lparr>wc_concept_id = ''C2'', wc_concept_name = Some ''Geometry'',
                wc_mastery_score = 60, wc_mastery_level = Beginner\<rparr>]"
  using get_weak_concepts_result [of None "''S9''" example_features]
    get_weak_concepts_result [of "Some []" "''S9''" example_features]
    get_weak_concepts_result [of None "''S1''" example_features]
  by (simp add: example_features_def get_weak_concepts_def weak_columns_def)

text \<open>
  Claim C3 as stated fails: for a student without rows the result is \<open>None\<close> and not
  the empty table, which is what a student with rows none of which is weak gets; and a
  plan for a student who is in the vector index but has no feature rows ends in the
  error that the first use of that \<open>None\<close> raises.
\<close>

theorem get_weak_concepts_none_counterexample:
  "get_weak_concepts ''S9'' (Some example_features) = None
   \<and> get_weak_concepts ''S9'' (Some example_features) \<noteq> Some []
   \<and> get_weak_concepts ''S2'' (Some example_features) = Some []
   \<and> get_weak_concepts ''S1'' (Some example_features_others) = None
   \<and> snd (generate_personalized_plan cosine_similarity
             (example_recommender\<lparr>student_features := example_features_others\<rparr>)
             example_engine ''S1'')
       = Inl AttributeError"
proof -
  have none: "get_weak_concepts ''S1'' (Some example_features_others) = None"
    by (simp add: get_weak_concepts_def example_features_others_def)
  have "snd (generate_personalized_plan cosine_similarity
             (example_recommender\<lparr>student_features := example_features_others\<rparr>)
             example_engine ''S1'')
       = Inl AttributeError"
    by (simp add: generate_personalized_plan_def none example_find_fresh example_patterns)
  with none show ?thesis
    by (simp add: get_weak_concepts_def example_features_def)
qed

end
